theory Spec2Isabelle
  imports Main "HOL-Library.Word"
begin

section \<open>JavaScript values\<close>

text \<open>
  A JavaScript string is a sequence of UTF-16 code units. A lone surrogate is a legal
  element of such a sequence, so the element type is the full 16-bit word.
\<close>

type_synonym jsstring = "16 word list"

definition js_of :: "string \<Rightarrow> jsstring" where
  "js_of s = map (\<lambda>c. of_nat (of_char c)) s"

text \<open>
  Values that the code throws or that a promise rejects with: the \<open>URIError\<close> of
  \<open>encodeURIComponent\<close>, an object that carries a numeric \<open>statusCode\<close> (the table
  client's REST errors), and any other thrown value (for instance \<open>new Error(msg)\<close>).
\<close>

datatype js_error = URIError | StatusError int | PlainError jsstring

text \<open>
  The numbers the nudge generator produces: an integer or \<open>NaN\<close> (the time value of a
  date that did not parse). Timestamps are integer milliseconds; the quotient by the
  milliseconds of an hour is rounded in exact arithmetic.

  \<open>Number::toString\<close>: \<open>NaN\<close> prints as such, a negative number as a minus sign and
  its absolute value, an integer below \<open>10^21\<close> as its decimal digits. From \<open>10^21\<close> on
  JavaScript prints the exponent form of the shortest digits of the double; that text
  is the parameter \<open>large\<close>.
\<close>

datatype jsnum = Num int | NaN

fun decimalDigits :: "nat \<Rightarrow> jsstring" where
  "decimalDigits n =
     (if n < 10 then [of_nat (0x30 + n)]
      else decimalDigits (n div 10) @ [of_nat (0x30 + n mod 10)])"

definition positiveToString :: "(nat \<Rightarrow> jsstring) \<Rightarrow> nat \<Rightarrow> jsstring" where
  "positiveToString large n = (if n < 10 ^ 21 then decimalDigits n else large n)"

definition numberToString :: "(nat \<Rightarrow> jsstring) \<Rightarrow> jsnum \<Rightarrow> jsstring" where
  "numberToString large x =
     (case x of
        NaN \<Rightarrow> js_of ''NaN''
      | Num i \<Rightarrow>
          if i < 0 then js_of ''-'' @ positiveToString large (nat (- i))
          else positiveToString large (nat i))"

text \<open>\<open>Math.round(a / b)\<close> for integers \<open>a\<close> and \<open>b > 0\<close>: the nearest integer, a tie going up.\<close>

definition mathRoundDiv :: "int \<Rightarrow> int \<Rightarrow> int" where
  "mathRoundDiv a b = (2 * a + b) div (2 * b)"

text \<open>Truthiness of an optional string: \<open>undefined\<close> and the empty string are falsy.\<close>

definition truthy :: "jsstring option \<Rightarrow> bool" where
  "truthy v = (case v of None \<Rightarrow> False | Some s \<Rightarrow> s \<noteq> [])"

text \<open>The operator \<open>a ?? b\<close> on an optional value with a default.\<close>

definition nullish :: "'a option \<Rightarrow> 'a \<Rightarrow> 'a" where
  "nullish a b = (case a of None \<Rightarrow> b | Some v \<Rightarrow> v)"

subsection \<open>\<open>encodeURIComponent\<close>\<close>

text \<open>
  The built-in follows ECMAScript's \<open>Encode\<close>: a code unit of the unreserved set
  (letters, digits and \<open>- _ . ! ~ * ' ( )\<close>) is copied; any other code point is read with
  its surrogate pair, an unpaired surrogate raising \<open>URIError\<close>; the code point's UTF-8
  octets are each written as \<open>%\<close> and two upper-case hexadecimal digits.
\<close>

definition uriUnreserved :: "16 word \<Rightarrow> bool" where
  "uriUnreserved c \<longleftrightarrow>
     (0x41 \<le> c \<and> c \<le> 0x5A) \<or> (0x61 \<le> c \<and> c \<le> 0x7A) \<or> (0x30 \<le> c \<and> c \<le> 0x39) \<or>
     c \<in> set (js_of ''-_.!~*()'') \<or> c = 0x27"

definition isLeadingSurrogate :: "16 word \<Rightarrow> bool" where
  "isLeadingSurrogate c \<longleftrightarrow> 0xD800 \<le> c \<and> c \<le> 0xDBFF"

definition isTrailingSurrogate :: "16 word \<Rightarrow> bool" where
  "isTrailingSurrogate c \<longleftrightarrow> 0xDC00 \<le> c \<and> c \<le> 0xDFFF"

definition surrogatePairToCodePoint :: "16 word \<Rightarrow> 16 word \<Rightarrow> nat" where
  "surrogatePairToCodePoint lead trail =
     (unat lead - 0xD800) * 0x400 + (unat trail - 0xDC00) + 0x10000"

definition utf8 :: "nat \<Rightarrow> nat list" where
  "utf8 cp =
     (if cp < 0x80 then [cp]
      else if cp < 0x800 then [0xC0 + cp div 0x40, 0x80 + cp mod 0x40]
      else if cp < 0x10000 then
        [0xE0 + cp div 0x1000, 0x80 + cp div 0x40 mod 0x40, 0x80 + cp mod 0x40]
      else [0xF0 + cp div 0x40000, 0x80 + cp div 0x1000 mod 0x40,
            0x80 + cp div 0x40 mod 0x40, 0x80 + cp mod 0x40])"

definition hexDigit :: "nat \<Rightarrow> 16 word" where
  "hexDigit n = (if n < 10 then of_nat (0x30 + n) else of_nat (0x41 + (n - 10)))"

definition percentOctet :: "nat \<Rightarrow> jsstring" where
  "percentOctet b = [0x25, hexDigit (b div 16), hexDigit (b mod 16)]"

fun encodeURIComponent :: "jsstring \<Rightarrow> js_error + jsstring" where
  "encodeURIComponent [] = Inr []"
| "encodeURIComponent (c # cs) =
     (if uriUnreserved c then
        (case encodeURIComponent cs of Inl e \<Rightarrow> Inl e | Inr r \<Rightarrow> Inr (c # r))
      else if isTrailingSurrogate c then Inl URIError
      else if \<not> isLeadingSurrogate c then
        (case encodeURIComponent cs of
           Inl e \<Rightarrow> Inl e
         | Inr r \<Rightarrow> Inr (concat (map percentOctet (utf8 (unat c))) @ r))
      else
        (case cs of
           [] \<Rightarrow> Inl URIError
         | d # ds \<Rightarrow>
             if \<not> isTrailingSurrogate d then Inl URIError
             else
               (case encodeURIComponent ds of
                  Inl e \<Rightarrow> Inl e
                | Inr r \<Rightarrow>
                    Inr (concat (map percentOctet (utf8 (surrogatePairToCodePoint c d))) @ r))))"

text \<open>A string is well formed when every surrogate in it is half of a pair.\<close>

fun isWellFormed :: "jsstring \<Rightarrow> bool" where
  "isWellFormed [] = True"
| "isWellFormed (c # cs) =
     (if isTrailingSurrogate c then False
      else if \<not> isLeadingSurrogate c then isWellFormed cs
      else (case cs of [] \<Rightarrow> False | d # ds \<Rightarrow> isTrailingSurrogate d \<and> isWellFormed ds))"

section \<open>Storage client (storage.ts)\<close>

definition TABLE_URGENCY :: jsstring where
  "TABLE_URGENCY = js_of ''sovereignurgency''"

definition TABLE_ARCHIVE :: jsstring where
  "TABLE_ARCHIVE = js_of ''sovereignarchive''"

definition PK_CONTACTS :: jsstring where
  "PK_CONTACTS = js_of ''contacts''"

text \<open>\<open>s.replace(/%/g, "$")\<close>: every percent sign becomes a dollar sign.\<close>

definition replacePercent :: "jsstring \<Rightarrow> jsstring" where
  "replacePercent s = map (\<lambda>c. if c = 0x25 then 0x24 else c) s"

definition normalizeRowKey :: "jsstring \<Rightarrow> js_error + jsstring" where
  "normalizeRowKey raw =
     (case encodeURIComponent raw of Inl e \<Rightarrow> Inl e | Inr s \<Rightarrow> Inr (replacePercent s))"

text \<open>The characters a row key must not contain, and the escape character itself.\<close>

definition reservedKeyChars :: "16 word set" where
  "reservedKeyChars = {0x2F, 0x5C, 0x23, 0x3F, 0x25}"

text \<open>What the encoder can write: an unreserved character, the percent sign, a hexadecimal digit.\<close>

definition escapeOutput :: "16 word \<Rightarrow> bool" where
  "escapeOutput c \<longleftrightarrow> uriUnreserved c \<or> c = 0x25 \<or> (\<exists>n<16. c = hexDigit n)"

fun isNotFoundError :: "js_error \<Rightarrow> bool" where
  "isNotFoundError (StatusError code) = (code = 404)"
| "isNotFoundError _ = False"


section \<open>Data model (types.ts)\<close>

datatype SenderClassification = PriorityHuman | KnownHuman | SystemNoise

record UrgencyTableEntry =
  partitionKey :: jsstring
  rowKey :: jsstring
  displayName :: jsstring
  isPriority :: bool
  lastMessageAt :: "jsstring option"
  lastRepliedAt :: "jsstring option"
  notes' :: "jsstring option"

record ClassificationResult =
  classification :: SenderClassification
  contactEntry :: "UrgencyTableEntry option"

record ArchivedNoiseEntity =
  partitionKey :: jsstring
  rowKey :: jsstring
  provider :: jsstring
  senderId :: jsstring
  senderName :: "jsstring option"
  body :: jsstring
  receivedAt :: jsstring
  sessionKey :: "jsstring option"

record BatchedMessage =
  senderId :: jsstring
  senderName :: "jsstring option"
  body :: jsstring
  provider :: "jsstring option"
  receivedAt :: jsstring
  sessionKey :: "jsstring option"
  originatingChannel :: "jsstring option"
  originatingTo :: "jsstring option"

record RelationshipNudge =
  contactName :: jsstring
  contactId :: jsstring
  silentHours :: jsnum
  suggestion :: jsstring

record SovereignFilterConfig =
  enabled :: bool
  batchSchedule :: jsstring
  nudgeAfterSilentHours :: int
  azureStorageConnectionString :: "jsstring option"

definition DEFAULT_SOVEREIGN_FILTER_CONFIG :: SovereignFilterConfig where
  "DEFAULT_SOVEREIGN_FILTER_CONFIG =
     \<lparr>enabled = False, batchSchedule = js_of ''0 9 * * *'', nudgeAfterSilentHours = 72,
      azureStorageConnectionString = None\<rparr>"

text \<open>
  The inbound message context. Its type is declared in the dispatch pipeline, outside
  these sources; the record has the fields the filter reads, each an optional string
  (the source reads them through \<open>??\<close> or copies them into optional fields).
\<close>

record MsgContext =
  Body :: "jsstring option"
  From :: "jsstring option"
  SenderId :: "jsstring option"
  SenderName :: "jsstring option"
  Provider :: "jsstring option"
  Surface :: "jsstring option"
  SessionKey :: "jsstring option"
  MessageSid :: "jsstring option"
  OriginatingChannel :: "jsstring option"
  OriginatingTo :: "jsstring option"

section \<open>The world: external collaborators and mutable state\<close>

text \<open>
  What a table client is asked to store: a contact row (\<open>upsertContact\<close>), the partial
  row of a last-message touch (partition key, row key, timestamp), or an archived
  noise entry.
\<close>

datatype table_entity =
    ContactRow UrgencyTableEntry
  | TouchRow jsstring jsstring jsstring
  | NoiseRow ArchivedNoiseEntity

datatype update_mode = Merge | Replace

text \<open>
  Every request to a collaborator is recorded, in order: the table name and arguments of
  a table request, a call of the normal dispatch pipeline, a \<open>markComplete\<close> on the
  reply dispatcher.
\<close>

datatype effect =
    GetEntity jsstring jsstring jsstring
  | ListEntities jsstring jsstring
  | UpsertEntity jsstring table_entity update_mode
  | UpdateEntity jsstring table_entity update_mode
  | DispatchInbound MsgContext
  | MarkComplete

text \<open>
  The table client of the storage SDK is an external collaborator. A client is its table
  name and what the backend answers to each request: a row or a rejection for a point
  lookup, the rows or a rejection for an enumeration, success (\<open>None\<close>) or a rejection
  for a write.
\<close>

record TableClient =
  tableName :: jsstring
  getEntityResult :: "jsstring \<Rightarrow> jsstring \<Rightarrow> js_error + UrgencyTableEntry"
  listEntitiesResult :: "jsstring \<Rightarrow> js_error + UrgencyTableEntry list"
  upsertEntityResult :: "table_entity \<Rightarrow> update_mode \<Rightarrow> js_error option"
  updateEntityResult :: "table_entity \<Rightarrow> update_mode \<Rightarrow> js_error option"

record SovereignStorageClient =
  urgencyClient :: TableClient
  archiveClient :: TableClient

type_synonym ref = nat

text \<open>
  The world threads through every operation. Its first five fields are never written:
  the value of the \<open>n\<close>-th reading of the system clock (milliseconds since the epoch),
  the characters \<open>Math.random().toString(36).slice(2, 8)\<close> yields at the \<open>n\<close>-th
  reading, the built-ins \<open>Date.prototype.toISOString\<close> and date parsing
  (\<open>None\<close> for a string that does not parse, whose time value is \<open>NaN\<close>), and the
  exponent form in which a number from \<open>10^21\<close> on is printed.
  The mutable part: the number of readings so far, the trace of requests, and the heap:
  the contents of each array object, the private field \<open>queue\<close> of each
  \<open>MessageBatchQueue\<close> object (a reference to an array), and the next free reference.
\<close>

record world =
  clock :: "nat \<Rightarrow> int"
  randomSuffix :: "nat \<Rightarrow> jsstring"
  toISOString :: "int \<Rightarrow> jsstring"
  parseDate :: "jsstring \<Rightarrow> int option"
  exponentForm :: "nat \<Rightarrow> jsstring"
  ticks :: nat
  trace :: "effect list"
  arrays :: "ref \<Rightarrow> BatchedMessage list"
  queue :: "ref \<Rightarrow> ref"
  nextRef :: ref

definition dateNow :: "world \<Rightarrow> int \<times> world" where
  "dateNow w = (clock w (ticks w), w\<lparr>ticks := Suc (ticks w)\<rparr>)"

definition mathRandomSuffix :: "world \<Rightarrow> jsstring \<times> world" where
  "mathRandomSuffix w = (randomSuffix w (ticks w), w\<lparr>ticks := Suc (ticks w)\<rparr>)"

definition emit :: "effect \<Rightarrow> world \<Rightarrow> world" where
  "emit e w = w\<lparr>trace := trace w @ [e]\<rparr>"

subsection \<open>Table requests\<close>

definition getEntity ::
  "TableClient \<Rightarrow> jsstring \<Rightarrow> jsstring \<Rightarrow> world \<Rightarrow> (js_error + UrgencyTableEntry) \<times> world" where
  "getEntity client pk rk w = (getEntityResult client pk rk, emit (GetEntity (tableName client) pk rk) w)"

definition listEntities ::
  "TableClient \<Rightarrow> jsstring \<Rightarrow> world \<Rightarrow> (js_error + UrgencyTableEntry list) \<times> world" where
  "listEntities client flt w = (listEntitiesResult client flt, emit (ListEntities (tableName client) flt) w)"

definition upsertEntity ::
  "TableClient \<Rightarrow> table_entity \<Rightarrow> update_mode \<Rightarrow> world \<Rightarrow> (js_error + unit) \<times> world" where
  "upsertEntity client entity mode w =
     ((case upsertEntityResult client entity mode of None \<Rightarrow> Inr () | Some err \<Rightarrow> Inl err),
      emit (UpsertEntity (tableName client) entity mode) w)"

definition updateEntity ::
  "TableClient \<Rightarrow> table_entity \<Rightarrow> update_mode \<Rightarrow> world \<Rightarrow> (js_error + unit) \<times> world" where
  "updateEntity client entity mode w =
     ((case updateEntityResult client entity mode of None \<Rightarrow> Inr () | Some err \<Rightarrow> Inl err),
      emit (UpdateEntity (tableName client) entity mode) w)"

subsection \<open>\<open>SovereignStorageClient\<close>\<close>

text \<open>
  \<open>getContact\<close>: the row key is computed inside the \<open>try\<close>, so a \<open>URIError\<close> of
  \<open>normalizeRowKey\<close> reaches the same \<open>catch\<close> as a rejection of the lookup.
\<close>

definition getContact ::
  "SovereignStorageClient \<Rightarrow> jsstring \<Rightarrow> world \<Rightarrow> (js_error + UrgencyTableEntry option) \<times> world" where
  "getContact storage sid w =
     (case normalizeRowKey sid of
        Inl err \<Rightarrow> if isNotFoundError err then (Inr None, w) else (Inl err, w)
      | Inr key \<Rightarrow>
          (case getEntity (urgencyClient storage) PK_CONTACTS key w of
             (Inr entity, w1) \<Rightarrow> (Inr (Some entity), w1)
           | (Inl err, w1) \<Rightarrow> if isNotFoundError err then (Inr None, w1) else (Inl err, w1)))"

definition listContacts ::
  "SovereignStorageClient \<Rightarrow> world \<Rightarrow> (js_error + UrgencyTableEntry list) \<times> world" where
  "listContacts storage w =
     listEntities (urgencyClient storage)
       (js_of ''PartitionKey eq '' @ [0x27] @ PK_CONTACTS @ [0x27]) w"

definition listPriorityContacts ::
  "SovereignStorageClient \<Rightarrow> world \<Rightarrow> (js_error + UrgencyTableEntry list) \<times> world" where
  "listPriorityContacts storage w =
     (case listContacts storage w of
        (Inl err, w1) \<Rightarrow> (Inl err, w1)
      | (Inr all, w1) \<Rightarrow> (Inr (filter isPriority all), w1))"

definition upsertContact ::
  "SovereignStorageClient \<Rightarrow> UrgencyTableEntry \<Rightarrow> world \<Rightarrow> (js_error + unit) \<times> world" where
  "upsertContact storage entry w =
     (case normalizeRowKey (UrgencyTableEntry.rowKey entry) of
        Inl err \<Rightarrow> (Inl err, w)
      | Inr key \<Rightarrow>
          upsertEntity (urgencyClient storage)
            (ContactRow (entry\<lparr>UrgencyTableEntry.partitionKey := PK_CONTACTS,
                               UrgencyTableEntry.rowKey := key\<rparr>)) Merge w)"

text \<open>
  \<open>touchContactLastMessage\<close>: the row key is computed before the \<open>try\<close>; inside it the
  clock is read for the timestamp and the update is requested; a not-found rejection
  is swallowed, any other is thrown again.
\<close>

definition touchContactLastMessage ::
  "SovereignStorageClient \<Rightarrow> jsstring \<Rightarrow> world \<Rightarrow> (js_error + unit) \<times> world" where
  "touchContactLastMessage storage sid w =
     (case normalizeRowKey sid of
        Inl err \<Rightarrow> (Inl err, w)
      | Inr key \<Rightarrow>
          (let (now, w1) = dateNow w in
           (case updateEntity (urgencyClient storage)
                   (TouchRow PK_CONTACTS key (toISOString w now)) Merge w1 of
              (Inr u, w2) \<Rightarrow> (Inr (), w2)
            | (Inl err, w2) \<Rightarrow> if \<not> isNotFoundError err then (Inl err, w2) else (Inr (), w2))))"

definition archiveNoise ::
  "SovereignStorageClient \<Rightarrow> ArchivedNoiseEntity \<Rightarrow> world \<Rightarrow> (js_error + unit) \<times> world" where
  "archiveNoise storage entity w = upsertEntity (archiveClient storage) (NoiseRow entity) Replace w"

text \<open>
  The filter of \<open>findSilentContacts\<close>: a contact without a (truthy) timestamp passes;
  otherwise the parsed time must be below the cutoff, and \<open>NaN < cutoff\<close> is false.
\<close>

definition isSilent :: "world \<Rightarrow> int \<Rightarrow> UrgencyTableEntry \<Rightarrow> bool" where
  "isSilent w cutoff c =
     (if \<not> truthy (lastMessageAt c) then True
      else (case parseDate w (the (lastMessageAt c)) of None \<Rightarrow> False | Some t \<Rightarrow> t < cutoff))"

definition findSilentContacts ::
  "SovereignStorageClient \<Rightarrow> int \<Rightarrow> world \<Rightarrow> (js_error + UrgencyTableEntry list) \<times> world" where
  "findSilentContacts storage hours w =
     (case listContacts storage w of
        (Inl err, w1) \<Rightarrow> (Inl err, w1)
      | (Inr contacts, w1) \<Rightarrow>
          (let (now, w2) = dateNow w1;
               cutoff = now - hours * 60 * 60 * 1000
           in (Inr (filter (isSilent w cutoff) contacts), w2)))"


section \<open>Filter (filter.ts)\<close>

text \<open>The expression \<open>ctx.SenderId ?? ctx.From ?? ""\<close>, written out four times in the source.\<close>

definition effectiveSenderId :: "MsgContext \<Rightarrow> jsstring" where
  "effectiveSenderId ctx = nullish (SenderId ctx) (nullish (From ctx) [])"

definition classifySender ::
  "MsgContext \<Rightarrow> SovereignStorageClient \<Rightarrow> world \<Rightarrow> (js_error + ClassificationResult) \<times> world" where
  "classifySender ctx storage w =
     (let sid = effectiveSenderId ctx in
      if sid = [] then (Inr \<lparr>classification = SystemNoise, contactEntry = None\<rparr>, w)
      else
        (case getContact storage sid w of
           (Inl err, w1) \<Rightarrow> (Inl err, w1)
         | (Inr (Some contact), w1) \<Rightarrow>
             (Inr \<lparr>classification = (if isPriority contact then PriorityHuman else KnownHuman),
                   contactEntry = Some contact\<rparr>, w1)
         | (Inr None, w1) \<Rightarrow> (Inr \<lparr>classification = SystemNoise, contactEntry = None\<rparr>, w1)))"

subsection \<open>\<open>MessageBatchQueue\<close>\<close>

text \<open>
  A queue object is a reference; its private field \<open>queue\<close> holds a reference to an
  array. \<open>newArray\<close> is an array literal or spread (a fresh array object),
  \<open>arrayPush\<close> is \<open>Array.prototype.push\<close> on a reference.
\<close>

definition newArray :: "BatchedMessage list \<Rightarrow> world \<Rightarrow> ref \<times> world" where
  "newArray xs w = (nextRef w, w\<lparr>arrays := (arrays w)(nextRef w := xs), nextRef := Suc (nextRef w)\<rparr>)"

definition arrayPush :: "ref \<Rightarrow> BatchedMessage \<Rightarrow> world \<Rightarrow> world" where
  "arrayPush a msg w = w\<lparr>arrays := (arrays w)(a := arrays w a @ [msg])\<rparr>"

definition newMessageBatchQueue :: "world \<Rightarrow> ref \<times> world" where
  "newMessageBatchQueue w =
     (let (a, w1) = newArray [] w;
          this = nextRef w1
      in (this, w1\<lparr>queue := (queue w1)(this := a), nextRef := Suc this\<rparr>))"

definition enqueue :: "ref \<Rightarrow> BatchedMessage \<Rightarrow> world \<Rightarrow> world" where
  "enqueue this msg w = arrayPush (queue w this) msg w"

definition drain :: "ref \<Rightarrow> world \<Rightarrow> ref \<times> world" where
  "drain this w =
     (let (batch, w1) = newArray (arrays w (queue w this)) w;
          (fresh, w2) = newArray [] w1
      in (batch, w2\<lparr>queue := (queue w2)(this := fresh)\<rparr>))"

definition peek :: "ref \<Rightarrow> world \<Rightarrow> ref" where
  "peek this w = queue w this"

definition size_q :: "ref \<Rightarrow> world \<Rightarrow> nat" where
  "size_q this w = length (arrays w (queue w this))"

subsection \<open>Relationship nudges\<close>

definition buildNudge :: "UrgencyTableEntry \<Rightarrow> int \<Rightarrow> world \<Rightarrow> RelationshipNudge \<times> world" where
  "buildNudge contact threshold w =
     (let (hours, w1) =
            (if truthy (lastMessageAt contact) then
               (let (now, w') = dateNow w in
                ((case parseDate w (the (lastMessageAt contact)) of
                    None \<Rightarrow> NaN
                  | Some t \<Rightarrow> Num (mathRoundDiv (now - t) (60 * 60 * 1000))), w'))
             else (Num threshold, w));
          text =
            (if truthy (notes' contact) then
               js_of ''Consider acknowledging '' @ displayName contact @ js_of '' for: '' @
               the (notes' contact)
             else
               js_of ''It'' @ [0x27] @ js_of ''s been '' @ numberToString (exponentForm w) hours @
               js_of '' hours since you last connected with '' @ displayName contact @
               js_of ''. Consider reaching out.'')
      in (\<lparr>contactName = displayName contact,
            contactId = UrgencyTableEntry.rowKey contact,
            silentHours = hours,
            suggestion = text\<rparr>, w1))"

text \<open>\<open>silent.map(buildNudge)\<close>: one call per contact, in order.\<close>

fun mapBuildNudge ::
  "UrgencyTableEntry list \<Rightarrow> int \<Rightarrow> world \<Rightarrow> RelationshipNudge list \<times> world" where
  "mapBuildNudge [] threshold w = ([], w)"
| "mapBuildNudge (c # cs) threshold w =
     (let (n, w1) = buildNudge c threshold w;
          (ns, w2) = mapBuildNudge cs threshold w1
      in (n # ns, w2))"

definition generateRelationshipNudges ::
  "SovereignStorageClient \<Rightarrow> SovereignFilterConfig option \<Rightarrow> world \<Rightarrow>
     (js_error + RelationshipNudge list) \<times> world" where
  "generateRelationshipNudges storage config w =
     (let cfg = nullish config DEFAULT_SOVEREIGN_FILTER_CONFIG in
      (case findSilentContacts storage (nudgeAfterSilentHours cfg) w of
         (Inl err, w1) \<Rightarrow> (Inl err, w1)
       | (Inr silent, w1) \<Rightarrow>
           (let (nudges, w2) = mapBuildNudge silent (nudgeAfterSilentHours cfg) w1
            in (Inr nudges, w2))))"

subsection \<open>Silent archive\<close>

text \<open>
  The local constant \<open>entity\<close> of \<open>archiveSystemNoise\<close>, with the readings it takes:
  the clock for \<open>now\<close>, and for the fallback row key the clock again and the random source.
\<close>

definition noiseEntity :: "MsgContext \<Rightarrow> world \<Rightarrow> ArchivedNoiseEntity \<times> world" where
  "noiseEntity ctx w =
     (let (now, w1) = dateNow w;
          (rk, w2) =
            (case MessageSid ctx of
               Some sid \<Rightarrow> (sid, w1)
             | None \<Rightarrow>
                 (let (ms, w') = dateNow w1;
                      (suffix, w'') = mathRandomSuffix w'
                  in (numberToString (exponentForm w) (Num ms) @ js_of ''-'' @ suffix, w'')))
      in (\<lparr>ArchivedNoiseEntity.partitionKey = take 10 (toISOString w now),
           ArchivedNoiseEntity.rowKey = rk,
           ArchivedNoiseEntity.provider =
             nullish (Provider ctx) (nullish (Surface ctx) (js_of ''unknown'')),
           ArchivedNoiseEntity.senderId =
             nullish (SenderId ctx) (nullish (From ctx) (js_of ''unknown'')),
           ArchivedNoiseEntity.senderName = SenderName ctx,
           ArchivedNoiseEntity.body = nullish (Body ctx) [],
           ArchivedNoiseEntity.receivedAt = toISOString w now,
           ArchivedNoiseEntity.sessionKey = SessionKey ctx\<rparr>, w2))"

definition archiveSystemNoise ::
  "MsgContext \<Rightarrow> SovereignStorageClient \<Rightarrow> world \<Rightarrow> (js_error + unit) \<times> world" where
  "archiveSystemNoise ctx storage w =
     (let (entity, w1) = noiseEntity ctx w in archiveNoise storage entity w1)"

subsection \<open>\<open>applySovereignFilter\<close>\<close>

datatype FilterAction = DeliverRaw | Batch | Archive

record SovereignFilterOutcome =
  action :: FilterAction
  classification :: SenderClassification

text \<open>
  \<open>void p\<close> on the promise of an async call: the call has run up to its request (its
  effects are in the world), and whether it fulfils or rejects is dropped.
\<close>

definition fireAndForget :: "(js_error + 'a) \<times> world \<Rightarrow> world" where
  "fireAndForget p = snd p"

definition batchedMessageOf :: "MsgContext \<Rightarrow> jsstring \<Rightarrow> BatchedMessage" where
  "batchedMessageOf ctx stamp =
     \<lparr>BatchedMessage.senderId = effectiveSenderId ctx,
      BatchedMessage.senderName = SenderName ctx,
      BatchedMessage.body = nullish (Body ctx) [],
      BatchedMessage.provider = (case Provider ctx of Some p \<Rightarrow> Some p | None \<Rightarrow> Surface ctx),
      BatchedMessage.receivedAt = stamp,
      BatchedMessage.sessionKey = SessionKey ctx,
      originatingChannel = OriginatingChannel ctx,
      originatingTo = OriginatingTo ctx\<rparr>"

definition applySovereignFilter ::
  "MsgContext \<Rightarrow> SovereignStorageClient \<Rightarrow> ref \<Rightarrow> world \<Rightarrow>
     (js_error + SovereignFilterOutcome) \<times> world" where
  "applySovereignFilter ctx storage batchQueue w =
     (case classifySender ctx storage w of
        (Inl err, w1) \<Rightarrow> (Inl err, w1)
      | (Inr r, w1) \<Rightarrow>
          (case ClassificationResult.classification r of
             PriorityHuman \<Rightarrow>
               (let w2 = fireAndForget (touchContactLastMessage storage (effectiveSenderId ctx) w1)
                in (Inr \<lparr>action = DeliverRaw, classification = PriorityHuman\<rparr>, w2))
           | KnownHuman \<Rightarrow>
               (let w2 = fireAndForget (touchContactLastMessage storage (effectiveSenderId ctx) w1);
                    (now, w3) = dateNow w2;
                    w4 = enqueue batchQueue (batchedMessageOf ctx (toISOString w now)) w3
                in (Inr \<lparr>action = Batch, classification = KnownHuman\<rparr>, w4))
           | SystemNoise \<Rightarrow>
               (case archiveSystemNoise ctx storage w1 of
                  (Inl err, w2) \<Rightarrow> (Inl err, w2)
                | (Inr u, w2) \<Rightarrow> (Inr \<lparr>action = Archive, classification = SystemNoise\<rparr>, w2))))"

section \<open>Dispatch integration (dispatch-integration.ts)\<close>

text \<open>
  The collaborators of the dispatch bridge that live outside the filter: what the normal
  dispatch pipeline (\<open>dispatchInboundMessage\<close>) returns or rejects with for a context and
  the remaining arguments (configuration, reply dispatcher, reply options, resolver:
  passed through untouched, so one opaque value), the table client the SDK builds from
  a connection string and a table name, and the connection string of the process
  environment.
\<close>

record ('a, 'r) collaborators =
  dispatchInboundResult :: "MsgContext \<Rightarrow> 'a \<Rightarrow> js_error + 'r"
  fromConnectionString :: "jsstring \<Rightarrow> jsstring \<Rightarrow> js_error + TableClient"
  envConnectionString :: "jsstring option"

record 'a DispatchParams =
  ctx :: MsgContext
  dispatchArgs :: 'a
  filterConfig :: "SovereignFilterConfig option"
  storage :: "SovereignStorageClient option"
  batchQueue :: "ref option"

text \<open>
  The result: the fields of the normal dispatch result when the message was passed on
  (\<open>None\<close> when it was intercepted), the flag and the filter's outcome.
\<close>

record 'r SovereignDispatchResult =
  dispatchResult :: "'r option"
  intercepted :: bool
  outcome :: SovereignFilterOutcome

definition dispatchInboundMessage ::
  "('a, 'r) collaborators \<Rightarrow> MsgContext \<Rightarrow> 'a \<Rightarrow> world \<Rightarrow> (js_error + 'r) \<times> world" where
  "dispatchInboundMessage env c args w = (dispatchInboundResult env c args, emit (DispatchInbound c) w)"

definition getConnectionString ::
  "('a, 'r) collaborators \<Rightarrow> SovereignFilterConfig \<Rightarrow> js_error + jsstring" where
  "getConnectionString env config =
     (let cs = (case azureStorageConnectionString config of
                  Some s \<Rightarrow> Some s
                | None \<Rightarrow> envConnectionString env)
      in if \<not> truthy cs then
           Inl (PlainError (js_of
             ''AZURE_STORAGE_CONNECTION_STRING is required for the Sovereign Filter Azure storage client''))
         else Inr (the cs))"

definition newSovereignStorageClient ::
  "('a, 'r) collaborators \<Rightarrow> SovereignFilterConfig \<Rightarrow> js_error + SovereignStorageClient" where
  "newSovereignStorageClient env config =
     (case getConnectionString env config of
        Inl err \<Rightarrow> Inl err
      | Inr cs \<Rightarrow>
          (case fromConnectionString env cs TABLE_URGENCY of
             Inl err \<Rightarrow> Inl err
           | Inr u \<Rightarrow>
               (case fromConnectionString env cs TABLE_ARCHIVE of
                  Inl err \<Rightarrow> Inl err
                | Inr a \<Rightarrow> Inr \<lparr>urgencyClient = u, archiveClient = a\<rparr>)))"

definition dispatchWithSovereignFilter ::
  "('a, 'r) collaborators \<Rightarrow> 'a DispatchParams \<Rightarrow> world \<Rightarrow>
     (js_error + 'r SovereignDispatchResult) \<times> world" where
  "dispatchWithSovereignFilter env params w =
     (let config = nullish (filterConfig params) DEFAULT_SOVEREIGN_FILTER_CONFIG in
      if \<not> enabled config then
        (case dispatchInboundMessage env (ctx params) (dispatchArgs params) w of
           (Inl err, w1) \<Rightarrow> (Inl err, w1)
         | (Inr result, w1) \<Rightarrow>
             (Inr \<lparr>dispatchResult = Some result, intercepted = False,
                   outcome = \<lparr>action = DeliverRaw, classification = PriorityHuman\<rparr>\<rparr>, w1))
      else
        (case (case storage params of
                 Some s \<Rightarrow> Inr s
               | None \<Rightarrow> newSovereignStorageClient env config) of
           Inl err \<Rightarrow> (Inl err, w)
         | Inr st \<Rightarrow>
             (let (q, w0) = (case batchQueue params of
                               Some q \<Rightarrow> (q, w)
                             | None \<Rightarrow> newMessageBatchQueue w)
              in (case applySovereignFilter (ctx params) st q w0 of
                    (Inl err, w1) \<Rightarrow> (Inl err, w1)
                  | (Inr out, w1) \<Rightarrow>
                      (case action out of
                         DeliverRaw \<Rightarrow>
                           (case dispatchInboundMessage env (ctx params) (dispatchArgs params) w1 of
                              (Inl err, w2) \<Rightarrow> (Inl err, w2)
                            | (Inr result, w2) \<Rightarrow>
                                (Inr \<lparr>dispatchResult = Some result, intercepted = False,
                                      outcome = out\<rparr>, w2))
                       | Batch \<Rightarrow>
                           (Inr \<lparr>dispatchResult = None, intercepted = True, outcome = out\<rparr>,
                            emit MarkComplete w1)
                       | Archive \<Rightarrow>
                           (Inr \<lparr>dispatchResult = None, intercepted = True, outcome = out\<rparr>,
                            emit MarkComplete w1))))))"


section \<open>Observations and example values\<close>

text \<open>The archive writes in a trace: the upserts of a noise entry.\<close>

fun isArchiveWrite :: "effect \<Rightarrow> bool" where
  "isArchiveWrite (UpsertEntity t (NoiseRow entity) mode) = True"
| "isArchiveWrite e = False"

definition archiveWrites :: "effect list \<Rightarrow> nat" where
  "archiveWrites tr = length (filter isArchiveWrite tr)"

text \<open>The requests to a table client in a trace (everything but the dispatch layer's events).\<close>

fun isTableRequest :: "effect \<Rightarrow> bool" where
  "isTableRequest (DispatchInbound c) = False"
| "isTableRequest MarkComplete = False"
| "isTableRequest e = True"

text \<open>A caller's sequence of \<open>enqueue\<close> calls on one queue.\<close>

fun enqueueAll :: "ref \<Rightarrow> BatchedMessage list \<Rightarrow> world \<Rightarrow> world" where
  "enqueueAll this [] w = w"
| "enqueueAll this (m # ms) w = enqueueAll this ms (enqueue this m w)"

text \<open>
  Concrete values for the examples: a world whose clock starts at 1700000000000 ms and
  advances one millisecond per reading, an in-memory table that answers a lookup or a
  touch of a missing row with status 404, a storage client over two such tables with a
  priority contact \<open>alice\<close> and a non-priority contact \<open>bob\<close>, a storage client whose
  registry is empty, and a message context.
\<close>

definition exampleWorld :: world where
  "exampleWorld =
     \<lparr>clock = (\<lambda>n. 1700000000000 + int n),
      randomSuffix = (\<lambda>n. js_of ''k3x9qa''),
      toISOString = (\<lambda>t. js_of ''2023-11-14T22:13:20.000Z''),
      parseDate = (\<lambda>s. if s = js_of ''2023-11-10T22:13:20.000Z'' then Some 1699654400000
                         else if s = js_of ''2023-11-14T21:13:20.000Z'' then Some 1699996400000
                         else None),
      exponentForm = (\<lambda>n. js_of ''1e+21''),
      ticks = 0, trace = [], arrays = (\<lambda>a. []), queue = (\<lambda>q. 0), nextRef = 0\<rparr>"

definition exampleContact :: "jsstring \<Rightarrow> jsstring \<Rightarrow> bool \<Rightarrow> UrgencyTableEntry" where
  "exampleContact key name prio =
     \<lparr>UrgencyTableEntry.partitionKey = PK_CONTACTS, UrgencyTableEntry.rowKey = key, displayName = name, isPriority = prio,
      lastMessageAt = None, lastRepliedAt = None, notes' = None\<rparr>"

definition tableOf :: "jsstring \<Rightarrow> UrgencyTableEntry list \<Rightarrow> TableClient" where
  "tableOf name rows =
     \<lparr>tableName = name,
      getEntityResult = (\<lambda>pk rk.
        case find (\<lambda>e. UrgencyTableEntry.partitionKey e = pk \<and> UrgencyTableEntry.rowKey e = rk) rows of
          Some e \<Rightarrow> Inr e
        | None \<Rightarrow> Inl (StatusError 404)),
      listEntitiesResult = (\<lambda>flt. Inr rows),
      upsertEntityResult = (\<lambda>entity mode. None),
      updateEntityResult = (\<lambda>entity mode.
        case entity of
          TouchRow pk rk stamp \<Rightarrow>
            if \<exists>e \<in> set rows. UrgencyTableEntry.partitionKey e = pk \<and> UrgencyTableEntry.rowKey e = rk
            then None else Some (StatusError 404)
        | _ \<Rightarrow> None)\<rparr>"

definition exampleStorage :: SovereignStorageClient where
  "exampleStorage =
     \<lparr>urgencyClient = tableOf TABLE_URGENCY
        [exampleContact (js_of ''alice'') (js_of ''Alice'') True,
         exampleContact (js_of ''bob'') (js_of ''Bob'') False],
      archiveClient = tableOf TABLE_ARCHIVE []\<rparr>"

definition exampleEmptyStorage :: SovereignStorageClient where
  "exampleEmptyStorage =
     \<lparr>urgencyClient = tableOf TABLE_URGENCY [], archiveClient = tableOf TABLE_ARCHIVE []\<rparr>"

definition exampleCtx :: "jsstring option \<Rightarrow> jsstring option \<Rightarrow> MsgContext" where
  "exampleCtx sid from =
     \<lparr>Body = Some (js_of ''hello''), From = from, SenderId = sid, SenderName = None,
      Provider = Some (js_of ''telegram''), Surface = None, SessionKey = None,
      MessageSid = Some (js_of ''msg-1''), OriginatingChannel = None, OriginatingTo = None\<rparr>"

definition exampleMessage :: BatchedMessage where
  "exampleMessage = batchedMessageOf (exampleCtx (Some (js_of ''mallory'')) None) (js_of ''2023-11-14T22:13:20.000Z'')"

definition exampleQueue :: ref where
  "exampleQueue = fst (newMessageBatchQueue exampleWorld)"

definition exampleQueueWorld :: world where
  "exampleQueueWorld = snd (newMessageBatchQueue exampleWorld)"

text \<open>
  Collaborators of the dispatch bridge whose normal dispatch always answers \<open>ok\<close>, and
  parameters that pass the example storage client and queue.
\<close>

definition exampleEnv :: "(unit, jsstring) collaborators" where
  "exampleEnv =
     \<lparr>dispatchInboundResult = (\<lambda>c args. Inr (js_of ''ok'')),
      fromConnectionString = (\<lambda>cs name. Inr (tableOf name [])),
      envConnectionString = None\<rparr>"

definition exampleParams :: "jsstring option \<Rightarrow> SovereignFilterConfig option \<Rightarrow> unit DispatchParams" where
  "exampleParams sid config =
     \<lparr>ctx = exampleCtx sid None, dispatchArgs = (), filterConfig = config,
      storage = Some exampleStorage, batchQueue = Some exampleQueue\<rparr>"

text \<open>
  A registry for the nudge examples: \<open>dave\<close> last wrote 96 hours before the clock's
  start and has notes, \<open>eve\<close> one hour before, \<open>frank\<close> never.
\<close>

definition exampleDave :: UrgencyTableEntry where
  "exampleDave =
     (exampleContact (js_of ''dave'') (js_of ''Dave'') True)
       \<lparr>lastMessageAt := Some (js_of ''2023-11-10T22:13:20.000Z''),
        notes' := Some (js_of ''helped with the Azure migration'')\<rparr>"

definition exampleEve :: UrgencyTableEntry where
  "exampleEve =
     (exampleContact (js_of ''eve'') (js_of ''Eve'') True)
       \<lparr>lastMessageAt := Some (js_of ''2023-11-14T21:13:20.000Z'')\<rparr>"

definition exampleFrank :: UrgencyTableEntry where
  "exampleFrank = exampleContact (js_of ''frank'') (js_of ''Frank'') False"

definition exampleNudgeStorage :: SovereignStorageClient where
  "exampleNudgeStorage =
     \<lparr>urgencyClient = tableOf TABLE_URGENCY [exampleDave, exampleEve, exampleFrank],
      archiveClient = tableOf TABLE_ARCHIVE []\<rparr>"

text \<open>The definitions a concrete example unfolds.\<close>

lemmas example_defs =
  exampleCtx_def exampleStorage_def exampleEmptyStorage_def exampleContact_def tableOf_def exampleWorld_def
  exampleQueue_def exampleQueueWorld_def
  effectiveSenderId_def nullish_def js_of_def normalizeRowKey_def uriUnreserved_def
  replacePercent_def PK_CONTACTS_def TABLE_URGENCY_def TABLE_ARCHIVE_def

section \<open>Row keys\<close>

lemma unreserved_range:
  "uriUnreserved c \<Longrightarrow> unat c \<in> {0x21, 0x27, 0x28, 0x29, 0x2A, 0x2D, 0x2E, 0x5F, 0x7E} \<union> {0x30..0x39} \<union> {0x41..0x5A} \<union> {0x61..0x7A}"
  unfolding uriUnreserved_def js_of_def
  by (auto simp: word_le_nat_alt)

lemma hexDigit_range:
  "n < 16 \<Longrightarrow> unat (hexDigit n) \<in> {0x30..0x39} \<union> {0x41..0x46}"
  unfolding hexDigit_def by (auto simp: unat_of_nat simp del: of_nat_add of_nat_numeral)

lemma reserved_unat:
  "c \<in> {0x2F, 0x5C, 0x23, 0x3F, 0x25 :: 16 word} \<Longrightarrow> unat c \<in> {0x2F, 0x5C, 0x23, 0x3F, 0x25}"
  by auto



lemma percentOctet_output: "b < 256 \<Longrightarrow> c \<in> set (percentOctet b) \<Longrightarrow> escapeOutput c"
proof -
  assume b: "b < 256" and c: "c \<in> set (percentOctet b)"
  from b have hi: "b div 16 < 16" and lo: "b mod 16 < 16" by auto
  from c have "c = 0x25 \<or> c = hexDigit (b div 16) \<or> c = hexDigit (b mod 16)"
    unfolding percentOctet_def by auto
  with hi lo show ?thesis unfolding escapeOutput_def by blast
qed

lemma utf8_octets: "cp < 0x110000 \<Longrightarrow> b \<in> set (utf8 cp) \<Longrightarrow> b < 256"
  unfolding utf8_def by (auto split: if_splits)

lemma pair_cp_bound:
  "isLeadingSurrogate c \<Longrightarrow> isTrailingSurrogate d \<Longrightarrow> surrogatePairToCodePoint c d < 0x110000"
  unfolding surrogatePairToCodePoint_def isLeadingSurrogate_def isTrailingSurrogate_def
    word_le_nat_alt
  by simp arith

lemma unat16_bound: "unat (c :: 16 word) < 0x110000"
  using unsigned_less [of c, where 'a = nat] by simp

lemma percentEncoded_output:
  "cp < 0x110000 \<Longrightarrow> c \<in> set (concat (map percentOctet (utf8 cp))) \<Longrightarrow> escapeOutput c"
  by (auto dest: utf8_octets percentOctet_output)


lemma unreserved_not_surrogate:
  "uriUnreserved c \<Longrightarrow> \<not> isTrailingSurrogate c \<and> \<not> isLeadingSurrogate c"
  using unreserved_range [of c]
  unfolding isTrailingSurrogate_def isLeadingSurrogate_def word_le_nat_alt
  by auto

lemma escapeOutput_unreserved: "uriUnreserved c \<Longrightarrow> escapeOutput c"
  by (simp add: escapeOutput_def)

lemma percentEncoded_all:
  "cp < 0x110000 \<Longrightarrow> list_all escapeOutput (concat (map percentOctet (utf8 cp)))"
  unfolding list_all_iff using percentEncoded_output by blast

lemma encode_output:
  "encodeURIComponent raw = Inr s \<Longrightarrow> list_all escapeOutput s"
proof (induction raw arbitrary: s rule: encodeURIComponent.induct)
  case 1
  then show ?case by simp
next
  case (2 u us)
  show ?case
  proof (cases "uriUnreserved u")
    case True
    with "2.prems" obtain r where r: "encodeURIComponent us = Inr r" and s: "s = u # r"
      by (auto split: sum.splits)
    from "2.IH"(1) [OF True r] True s show ?thesis
      by (simp add: escapeOutput_unreserved)
  next
    case False
    note nu = this
    from nu "2.prems" have nt: "\<not> isTrailingSurrogate u"
      by (auto split: if_splits)
    show ?thesis
    proof (cases "isLeadingSurrogate u")
      case False
      with nu nt "2.prems" obtain r where r: "encodeURIComponent us = Inr r"
        and s: "s = concat (map percentOctet (utf8 (unat u))) @ r"
        by (auto split: sum.splits)
      from "2.IH"(2) [OF nu nt False r] s percentEncoded_all [OF unat16_bound, of u]
      show ?thesis by simp
    next
      case True
      with nu nt "2.prems" obtain d ds r where us: "us = d # ds"
        and td: "isTrailingSurrogate d" and r: "encodeURIComponent ds = Inr r"
        and s: "s = concat (map percentOctet (utf8 (surrogatePairToCodePoint u d))) @ r"
        by (auto split: sum.splits list.splits if_splits)
      from td have ntd: "\<not> \<not> isTrailingSurrogate d" by simp
      from "2.IH"(3) [OF nu nt _ us ntd r] True s
        percentEncoded_all [OF pair_cp_bound [OF True td]]
      show ?thesis by simp
    qed
  qed
qed

lemma sum_case_returns:
  "(\<exists>s. (case x of Inl e \<Rightarrow> Inl e | Inr r \<Rightarrow> Inr (f r)) = Inr s) \<longleftrightarrow> (\<exists>r. x = Inr r)"
  by (cases x) auto

lemma encode_wellformed:
  "(\<exists>s. encodeURIComponent raw = Inr s) \<longleftrightarrow> isWellFormed raw"
proof (induction raw rule: encodeURIComponent.induct)
  case 1
  show ?case by simp
next
  case (2 u us)
  show ?case
  proof (cases "uriUnreserved u")
    case True
    from unreserved_not_surrogate [OF True] "2.IH"(1) [OF True] True
    show ?thesis by (simp add: sum_case_returns)
  next
    case False
    note nu = this
    show ?thesis
    proof (cases "isTrailingSurrogate u")
      case True
      with nu show ?thesis by simp
    next
      case False
      note nt = this
      show ?thesis
      proof (cases "isLeadingSurrogate u")
        case False
        from "2.IH"(2) [OF nu nt False] nu nt False
        show ?thesis by (simp add: sum_case_returns)
      next
        case True
        note ld = this
        show ?thesis
        proof (cases us)
          case Nil
          with nu nt ld show ?thesis by simp
        next
          case (Cons d ds)
          show ?thesis
          proof (cases "isTrailingSurrogate d")
            case False
            with nu nt ld Cons show ?thesis by simp
          next
            case True
            then have ntd: "\<not> \<not> isTrailingSurrogate d" by simp
            from "2.IH"(3) [OF nu nt _ Cons ntd] nu nt ld Cons True
            show ?thesis by (simp add: sum_case_returns)
          qed
        qed
      qed
    qed
  qed
qed

lemma encode_unreserved:
  "list_all uriUnreserved raw \<Longrightarrow> encodeURIComponent raw = Inr raw"
  by (induction raw) simp_all

lemma encode_error: "encodeURIComponent raw = Inl e \<Longrightarrow> e = URIError"
proof (induction raw rule: encodeURIComponent.induct)
  case 1
  then show ?case by simp
next
  case (2 u us)
  then show ?case
    by (simp split: if_splits sum.splits list.splits)
qed

lemma escapeOutput_safe:
  assumes "escapeOutput c" "c \<noteq> 0x25"
  shows "c \<notin> reservedKeyChars"
proof -
  from assms consider "uriUnreserved c" | n where "n < 16" "c = hexDigit n"
    unfolding escapeOutput_def by blast
  then show ?thesis
  proof cases
    case 1
    from unreserved_range [OF 1] reserved_unat [of c] show ?thesis
      unfolding reservedKeyChars_def by auto
  next
    case 2
    from hexDigit_range [OF 2(1)] 2(2) reserved_unat [of c] show ?thesis
      unfolding reservedKeyChars_def by auto
  qed
qed

lemma replacePercent_safe:
  "list_all escapeOutput s \<Longrightarrow> set (replacePercent s) \<inter> reservedKeyChars = {}"
proof -
  assume a: "list_all escapeOutput s"
  have "c \<notin> reservedKeyChars" if "c \<in> set (replacePercent s)" for c
  proof -
    from that obtain d where d: "d \<in> set s" and c: "c = (if d = 0x25 then 0x24 else d)"
      unfolding replacePercent_def by auto
    show ?thesis
    proof (cases "d = 0x25")
      case True
      with c show ?thesis by (simp add: reservedKeyChars_def)
    next
      case False
      with a d c escapeOutput_safe [of d] show ?thesis by (auto simp: list_all_iff)
    qed
  qed
  then show ?thesis by blast
qed

lemma replacePercent_unreserved:
  "list_all uriUnreserved s \<Longrightarrow> replacePercent s = s"
proof -
  assume a: "list_all uriUnreserved s"
  have "c \<noteq> 0x25" if "c \<in> set s" for c
  proof
    assume "c = 0x25"
    moreover from a that have "uriUnreserved c" by (simp add: list_all_iff)
    ultimately show False using unreserved_range [of c] by auto
  qed
  then show ?thesis unfolding replacePercent_def by (simp add: map_idI)
qed

text \<open>
  Claim C7, as amended. On every well-formed input (no unpaired surrogate)
  \<open>normalizeRowKey\<close> returns a key, and the key contains none of \<open>/\<close>, backslash, \<open>#\<close>, \<open>?\<close>
  and no percent sign; on an input with an unpaired surrogate it returns no key and
  raises \<open>URIError\<close>; on an input of unreserved characters only it is the identity, in
  particular on \<open>user123\<close>.
\<close>

theorem normalizeRowKey_escapes_well_formed:
  "(isWellFormed raw \<longrightarrow>
      (\<exists>key. normalizeRowKey raw = Inr key \<and> set key \<inter> reservedKeyChars = {})) \<and>
   (\<not> isWellFormed raw \<longrightarrow> normalizeRowKey raw = Inl URIError) \<and>
   (list_all uriUnreserved raw \<longrightarrow> normalizeRowKey raw = Inr raw) \<and>
   normalizeRowKey (js_of ''user123'') = Inr (js_of ''user123'')"
proof (intro conjI impI)
  assume "isWellFormed raw"
  then obtain s where s: "encodeURIComponent raw = Inr s"
    using encode_wellformed [of raw] by blast
  from encode_output [OF s] have "set (replacePercent s) \<inter> reservedKeyChars = {}"
    by (rule replacePercent_safe)
  with s show "\<exists>key. normalizeRowKey raw = Inr key \<and> set key \<inter> reservedKeyChars = {}"
    by (simp add: normalizeRowKey_def)
next
  assume "\<not> isWellFormed raw"
  with encode_wellformed [of raw] obtain e where e: "encodeURIComponent raw = Inl e"
    by (cases "encodeURIComponent raw") auto
  with encode_error [OF e] show "normalizeRowKey raw = Inl URIError"
    by (simp add: normalizeRowKey_def)
next
  assume u: "list_all uriUnreserved raw"
  from encode_unreserved [OF u] replacePercent_unreserved [OF u]
  show "normalizeRowKey raw = Inr raw" by (simp add: normalizeRowKey_def)
next
  show "normalizeRowKey (js_of ''user123'') = Inr (js_of ''user123'')"
    by (simp add: normalizeRowKey_def js_of_def uriUnreserved_def replacePercent_def)
qed

theorem normalizeRowKey_escapes_witness:
  "isWellFormed [0x61, 0x2F, 0x62, 0x5C, 0x23, 0x3F, 0x25] \<and>
   (\<exists>key. normalizeRowKey [0x61, 0x2F, 0x62, 0x5C, 0x23, 0x3F, 0x25] = Inr key \<and>
      set key \<inter> reservedKeyChars = {}) \<and>
   \<not> isWellFormed [0x61, 0xDC00] \<and> normalizeRowKey [0x61, 0xDC00] = Inl URIError \<and>
   list_all uriUnreserved (js_of ''user-1'') \<and>
   normalizeRowKey (js_of ''user-1'') = Inr (js_of ''user-1'')"
  using normalizeRowKey_escapes_well_formed [of "[0x61, 0x2F, 0x62, 0x5C, 0x23, 0x3F, 0x25]"]
    normalizeRowKey_escapes_well_formed [of "[0x61, 0xDC00]"]
    normalizeRowKey_escapes_well_formed [of "js_of ''user-1''"]
  by (simp add: isTrailingSurrogate_def isLeadingSurrogate_def uriUnreserved_def js_of_def)

text \<open>
  The claim as stated promises a key for every input string; the string that is the single
  code unit \<open>U+D800\<close> gets none.
\<close>

theorem normalizeRowKey_lone_surrogate_counterexample:
  "normalizeRowKey [0xD800] = Inl URIError"
  by (simp add: normalizeRowKey_def uriUnreserved_def js_of_def
      isTrailingSurrogate_def isLeadingSurrogate_def)

section \<open>Classification\<close>

lemma getContact_found:"normalizeRowKey sid = Inr key \<Longrightarrow>
   getEntityResult (urgencyClient st) PK_CONTACTS key = Inr c \<Longrightarrow>
   getContact st sid w = (Inr (Some c), emit (GetEntity (tableName (urgencyClient st)) PK_CONTACTS key) w)"
  by (simp add: getContact_def getEntity_def)

lemma getContact_not_found:
  "normalizeRowKey sid = Inr key \<Longrightarrow>
   getEntityResult (urgencyClient st) PK_CONTACTS key = Inl err \<Longrightarrow> isNotFoundError err \<Longrightarrow>
   getContact st sid w = (Inr None, emit (GetEntity (tableName (urgencyClient st)) PK_CONTACTS key) w)"
  by (simp add: getContact_def getEntity_def)

lemma getContact_fault:
  "fst (getContact st sid w) = Inl e \<longleftrightarrow>
     (normalizeRowKey sid = Inl e \<and> \<not> isNotFoundError e) \<or>
     (\<exists>key. normalizeRowKey sid = Inr key \<and>
        getEntityResult (urgencyClient st) PK_CONTACTS key = Inl e \<and> \<not> isNotFoundError e)"
  by (auto simp: getContact_def getEntity_def split: sum.splits prod.splits)

lemma classification_exhaustive:
  "c = PriorityHuman \<or> c = KnownHuman \<or> c = SystemNoise"
  by (cases c) simp_all

lemma wellFormed_key: "isWellFormed sid \<Longrightarrow> \<exists>key. normalizeRowKey sid = Inr key"
proof -
  assume "isWellFormed sid"
  then obtain s where "encodeURIComponent sid = Inr s"
    using encode_wellformed [of sid] by blast
  then show ?thesis by (simp add: normalizeRowKey_def)
qed

lemma illFormed_key: "\<not> isWellFormed sid \<Longrightarrow> normalizeRowKey sid = Inl URIError"
proof -
  assume "\<not> isWellFormed sid"
  with encode_wellformed [of sid] obtain e where e: "encodeURIComponent sid = Inl e"
    by (cases "encodeURIComponent sid") auto
  with encode_error [OF e] show ?thesis by (simp add: normalizeRowKey_def)
qed

lemma getContact_illFormed:
  "\<not> isWellFormed sid \<Longrightarrow> getContact st sid w = (Inl URIError, w)"
  by (simp add: getContact_def illFormed_key)

lemma getContact_rejected:
  "normalizeRowKey sid = Inr key \<Longrightarrow>
   getEntityResult (urgencyClient st) PK_CONTACTS key = Inl err \<Longrightarrow> \<not> isNotFoundError err \<Longrightarrow>
   getContact st sid w = (Inl err, emit (GetEntity (tableName (urgencyClient st)) PK_CONTACTS key) w)"
  by (simp add: getContact_def getEntity_def)

lemma classifySender_illFormed:
  "\<not> isWellFormed (effectiveSenderId m) \<Longrightarrow> classifySender m st w = (Inl URIError, w)"
proof -
  assume a: "\<not> isWellFormed (effectiveSenderId m)"
  then have "effectiveSenderId m \<noteq> []" by auto
  with a show ?thesis by (simp add: classifySender_def getContact_illFormed)
qed

text \<open>
  Claim C1, as amended. \<open>classifySender\<close> is three-valued, and it classifies every
  message whose effective sender id (\<open>SenderId\<close>, else \<open>From\<close>, else the empty string) is
  empty or well-formed UTF-16. An empty id gives \<open>system-noise\<close> with the world untouched:
  no lookup is made. A non-empty well-formed id has a row key, and at that key: a lookup
  answered not found gives \<open>system-noise\<close>; a row with the priority flag true gives
  \<open>priority-human\<close>, with the flag false \<open>known-human\<close>, each with the row attached; any
  other rejection of the lookup is passed on. An id with an unpaired surrogate has no row
  key: \<open>classifySender\<close> rejects with \<open>URIError\<close> and the world is untouched, no lookup
  is made. Every result returned carries one of the three tags.
\<close>

theorem classifySender_classifies_well_formed:
  "(effectiveSenderId m = [] \<longrightarrow>
      classifySender m st w =
        (Inr \<lparr>ClassificationResult.classification = SystemNoise, contactEntry = None\<rparr>, w)) \<and>
   (effectiveSenderId m \<noteq> [] \<and> isWellFormed (effectiveSenderId m) \<longrightarrow>
      (\<exists>key. normalizeRowKey (effectiveSenderId m) = Inr key \<and>
         (\<forall>err. getEntityResult (urgencyClient st) PK_CONTACTS key = Inl err \<and>
                isNotFoundError err \<longrightarrow>
            fst (classifySender m st w) =
              Inr \<lparr>ClassificationResult.classification = SystemNoise, contactEntry = None\<rparr>) \<and>
         (\<forall>c. getEntityResult (urgencyClient st) PK_CONTACTS key = Inr c \<and> isPriority c \<longrightarrow>
            fst (classifySender m st w) =
              Inr \<lparr>ClassificationResult.classification = PriorityHuman, contactEntry = Some c\<rparr>) \<and>
         (\<forall>c. getEntityResult (urgencyClient st) PK_CONTACTS key = Inr c \<and> \<not> isPriority c \<longrightarrow>
            fst (classifySender m st w) =
              Inr \<lparr>ClassificationResult.classification = KnownHuman, contactEntry = Some c\<rparr>) \<and>
         (\<forall>err. getEntityResult (urgencyClient st) PK_CONTACTS key = Inl err \<and>
                \<not> isNotFoundError err \<longrightarrow>
            fst (classifySender m st w) = Inl err))) \<and>
   (\<not> isWellFormed (effectiveSenderId m) \<longrightarrow> classifySender m st w = (Inl URIError, w)) \<and>
   (fst (classifySender m st w) = Inr r \<longrightarrow>
      ClassificationResult.classification r = PriorityHuman \<or>
      ClassificationResult.classification r = KnownHuman \<or>
      ClassificationResult.classification r = SystemNoise)"
proof (intro conjI impI)
  assume "effectiveSenderId m = []"
  then show "classifySender m st w =
      (Inr \<lparr>ClassificationResult.classification = SystemNoise, contactEntry = None\<rparr>, w)"
    by (simp add: classifySender_def)
next
  assume a: "effectiveSenderId m \<noteq> [] \<and> isWellFormed (effectiveSenderId m)"
  then obtain key where key: "normalizeRowKey (effectiveSenderId m) = Inr key"
    using wellFormed_key by blast
  from a have ne: "effectiveSenderId m \<noteq> []" by simp
  have n: "fst (classifySender m st w) =
      Inr \<lparr>ClassificationResult.classification = SystemNoise, contactEntry = None\<rparr>"
    if "getEntityResult (urgencyClient st) PK_CONTACTS key = Inl err \<and> isNotFoundError err" for err
    using that ne by (simp add: classifySender_def getContact_not_found [OF key])
  have p: "fst (classifySender m st w) =
      Inr \<lparr>ClassificationResult.classification = PriorityHuman, contactEntry = Some c\<rparr>"
    if "getEntityResult (urgencyClient st) PK_CONTACTS key = Inr c \<and> isPriority c" for c
    using that ne by (simp add: classifySender_def getContact_found [OF key])
  have k: "fst (classifySender m st w) =
      Inr \<lparr>ClassificationResult.classification = KnownHuman, contactEntry = Some c\<rparr>"
    if "getEntityResult (urgencyClient st) PK_CONTACTS key = Inr c \<and> \<not> isPriority c" for c
    using that ne by (simp add: classifySender_def getContact_found [OF key])
  have f: "fst (classifySender m st w) = Inl err"
    if "getEntityResult (urgencyClient st) PK_CONTACTS key = Inl err \<and> \<not> isNotFoundError err" for err
    using that ne by (simp add: classifySender_def getContact_rejected [OF key])
  from key n p k f
  show "\<exists>key. normalizeRowKey (effectiveSenderId m) = Inr key \<and>
         (\<forall>err. getEntityResult (urgencyClient st) PK_CONTACTS key = Inl err \<and>
                isNotFoundError err \<longrightarrow>
            fst (classifySender m st w) =
              Inr \<lparr>ClassificationResult.classification = SystemNoise, contactEntry = None\<rparr>) \<and>
         (\<forall>c. getEntityResult (urgencyClient st) PK_CONTACTS key = Inr c \<and> isPriority c \<longrightarrow>
            fst (classifySender m st w) =
              Inr \<lparr>ClassificationResult.classification = PriorityHuman, contactEntry = Some c\<rparr>) \<and>
         (\<forall>c. getEntityResult (urgencyClient st) PK_CONTACTS key = Inr c \<and> \<not> isPriority c \<longrightarrow>
            fst (classifySender m st w) =
              Inr \<lparr>ClassificationResult.classification = KnownHuman, contactEntry = Some c\<rparr>) \<and>
         (\<forall>err. getEntityResult (urgencyClient st) PK_CONTACTS key = Inl err \<and>
                \<not> isNotFoundError err \<longrightarrow>
            fst (classifySender m st w) = Inl err)"
    by blast
next
  assume "\<not> isWellFormed (effectiveSenderId m)"
  then show "classifySender m st w = (Inl URIError, w)"
    by (rule classifySender_illFormed)
next
  show "ClassificationResult.classification r = PriorityHuman \<or>
      ClassificationResult.classification r = KnownHuman \<or>
      ClassificationResult.classification r = SystemNoise"
    by (rule classification_exhaustive)
qed

theorem classifySender_classifies_well_formed_witness:
  "classifySender (exampleCtx None None) exampleStorage exampleWorld =
     (Inr \<lparr>ClassificationResult.classification = SystemNoise, contactEntry = None\<rparr>, exampleWorld) \<and>
   isWellFormed (js_of ''carol'') \<and>
   fst (classifySender (exampleCtx (Some (js_of ''carol'')) None) exampleStorage exampleWorld) =
     Inr \<lparr>ClassificationResult.classification = SystemNoise, contactEntry = None\<rparr> \<and>
   fst (classifySender (exampleCtx None (Some (js_of ''alice''))) exampleStorage exampleWorld) =
     Inr \<lparr>ClassificationResult.classification = PriorityHuman,
          contactEntry = Some (exampleContact (js_of ''alice'') (js_of ''Alice'') True)\<rparr> \<and>
   fst (classifySender (exampleCtx (Some (js_of ''bob'')) None) exampleStorage exampleWorld) =
     Inr \<lparr>ClassificationResult.classification = KnownHuman,
          contactEntry = Some (exampleContact (js_of ''bob'') (js_of ''Bob'') False)\<rparr> \<and>
   \<not> isWellFormed [0x61, 0xD800] \<and>
   classifySender (exampleCtx (Some [0x61, 0xD800]) None) exampleStorage exampleWorld =
     (Inl URIError, exampleWorld)"
proof -
  have wf: "isWellFormed (js_of ''carol'')" "isWellFormed (js_of ''alice'')"
    "isWellFormed (js_of ''bob'')"
    by (simp_all add: js_of_def isTrailingSurrogate_def isLeadingSurrogate_def)
  have nwf: "\<not> isWellFormed [0x61, 0xD800]"
    by (simp add: isTrailingSurrogate_def isLeadingSurrogate_def)
  have ids: "effectiveSenderId (exampleCtx None None) = []"
    "effectiveSenderId (exampleCtx (Some (js_of ''carol'')) None) = js_of ''carol''"
    "effectiveSenderId (exampleCtx None (Some (js_of ''alice''))) = js_of ''alice''"
    "effectiveSenderId (exampleCtx (Some (js_of ''bob'')) None) = js_of ''bob''"
    "effectiveSenderId (exampleCtx (Some [0x61, 0xD800]) None) = [0x61, 0xD800]"
    by (simp_all add: exampleCtx_def effectiveSenderId_def nullish_def)
  have ne: "js_of ''carol'' \<noteq> []" "js_of ''alice'' \<noteq> []" "js_of ''bob'' \<noteq> []"
    by (simp_all add: js_of_def)
  have keys: "normalizeRowKey (js_of ''carol'') = Inr (js_of ''carol'')"
    "normalizeRowKey (js_of ''alice'') = Inr (js_of ''alice'')"
    "normalizeRowKey (js_of ''bob'') = Inr (js_of ''bob'')"
    by (simp_all add: normalizeRowKey_def js_of_def uriUnreserved_def replacePercent_def)
  have rows: "getEntityResult (urgencyClient exampleStorage) PK_CONTACTS (js_of ''carol'') =
      Inl (StatusError 404)"
    "getEntityResult (urgencyClient exampleStorage) PK_CONTACTS (js_of ''alice'') =
      Inr (exampleContact (js_of ''alice'') (js_of ''Alice'') True)"
    "getEntityResult (urgencyClient exampleStorage) PK_CONTACTS (js_of ''bob'') =
      Inr (exampleContact (js_of ''bob'') (js_of ''Bob'') False)"
    by (simp_all add: exampleStorage_def tableOf_def exampleContact_def PK_CONTACTS_def js_of_def)
  have flags: "isPriority (exampleContact (js_of ''alice'') (js_of ''Alice'') True)"
    "\<not> isPriority (exampleContact (js_of ''bob'') (js_of ''Bob'') False)"
    by (simp_all add: exampleContact_def)
  let ?r = "\<lparr>ClassificationResult.classification = SystemNoise, contactEntry = None\<rparr>"
  show ?thesis
    using
      classifySender_classifies_well_formed [where m = "exampleCtx None None"
        and st = exampleStorage and w = exampleWorld and r = ?r]
      classifySender_classifies_well_formed [where m = "exampleCtx (Some (js_of ''carol'')) None"
        and st = exampleStorage and w = exampleWorld and r = ?r]
      classifySender_classifies_well_formed [where m = "exampleCtx None (Some (js_of ''alice''))"
        and st = exampleStorage and w = exampleWorld and r = ?r]
      classifySender_classifies_well_formed [where m = "exampleCtx (Some (js_of ''bob'')) None"
        and st = exampleStorage and w = exampleWorld and r = ?r]
      classifySender_classifies_well_formed [where m = "exampleCtx (Some [0x61, 0xD800]) None"
        and st = exampleStorage and w = exampleWorld and r = ?r]
    by (simp add: wf nwf ids ne keys rows flags isTrailingSurrogate_def isLeadingSurrogate_def)
qed

text \<open>
  The claim as stated gives \<open>system-noise\<close> to every sender without a record. Over an
  empty registry the sender id that is the single code unit \<open>U+D800\<close> has no record, and
  \<open>classifySender\<close> returns no classification: it rejects with \<open>URIError\<close>, before any
  lookup.
\<close>

theorem classifySender_lone_surrogate_counterexample:
  "classifySender (exampleCtx (Some [0xD800]) None) exampleEmptyStorage exampleWorld =
     (Inl URIError, exampleWorld)"
  by (simp add: classifySender_def getContact_def exampleCtx_def effectiveSenderId_def
      nullish_def normalizeRowKey_def uriUnreserved_def js_of_def
      isTrailingSurrogate_def isLeadingSurrogate_def)

section \<open>The batch queue\<close>

lemma enqueueAll_queue: "queue (enqueueAll this ms w) = queue w"
  by (induction ms arbitrary: w) (simp_all add: enqueue_def arrayPush_def)

lemma enqueueAll_contents:
  "arrays (enqueueAll this ms w) (queue w this) = arrays w (queue w this) @ ms"
proof (induction ms arbitrary: w)
  case Nil
  show ?case by simp
next
  case (Cons m ms)
  have q: "queue (enqueue this m w) = queue w"
    by (simp add: enqueue_def arrayPush_def)
  from Cons [of "enqueue this m w"] show ?case
    by (simp add: q) (simp add: enqueue_def arrayPush_def)
qed

lemma newQueue_empty:
  "newMessageBatchQueue w = (this, w0) \<Longrightarrow> arrays w0 (queue w0 this) = []"
  by (auto simp: newMessageBatchQueue_def newArray_def Let_def)

lemma drain_batch:
  "drain this w = (b, w') \<Longrightarrow>
     arrays w' b = arrays w (queue w this) \<and> arrays w' (queue w' this) = [] \<and> b \<noteq> queue w' this"
  by (auto simp: drain_def newArray_def Let_def)

lemma drain_keeps_arrays:
  "drain this w = (b, w') \<Longrightarrow> a < nextRef w \<Longrightarrow> arrays w' a = arrays w a"
  by (auto simp: drain_def newArray_def Let_def)

lemma drain_nextRef:
  "drain this w = (b, w') \<Longrightarrow> b = nextRef w \<and> nextRef w' = Suc (Suc (nextRef w))"
  by (auto simp: drain_def newArray_def Let_def)

text \<open>
  Claim C4. On a fresh queue, after the messages \<open>msgs\<close> have been enqueued one by one,
  the size is their number; \<open>drain\<close> returns an array holding exactly \<open>msgs\<close> in
  insertion order and leaves the size 0; a second \<open>drain\<close> returns an empty array, and
  the first batch is not disturbed by it.
\<close>

theorem drain_returns_enqueued_fifo:
  "(let (this, w0) = newMessageBatchQueue w;
        w1 = enqueueAll this msgs w0;
        (batch, w2) = drain this w1;
        (batch2, w3) = drain this w2
    in size_q this w1 = length msgs \<and>
       arrays w2 batch = msgs \<and> size_q this w2 = 0 \<and>
       arrays w3 batch2 = [] \<and> size_q this w3 = 0 \<and> arrays w3 batch = msgs)"
proof -
  obtain this w0 where n: "newMessageBatchQueue w = (this, w0)" by (cases "newMessageBatchQueue w")
  define w1 where "w1 = enqueueAll this msgs w0"
  obtain batch w2 where d1: "drain this w1 = (batch, w2)" by (cases "drain this w1")
  obtain batch2 w3 where d2: "drain this w2 = (batch2, w3)" by (cases "drain this w2")
  have c1: "arrays w1 (queue w1 this) = msgs"
    using enqueueAll_contents [of this msgs w0] newQueue_empty [OF n]
    by (simp add: w1_def enqueueAll_queue)
  note r1 = drain_batch [OF d1] drain_nextRef [OF d1]
  note r2 = drain_batch [OF d2] drain_nextRef [OF d2]
  have keep: "arrays w3 batch = arrays w2 batch"
    using drain_keeps_arrays [OF d2, of batch] r1 by simp
  show ?thesis
    using c1 r1 r2 keep by (simp add: n d1 d2 w1_def [symmetric] size_q_def)
qed

text \<open>
  Claim C5, as amended. \<open>peek\<close> reads the queue's current contents and, returning only a
  value, changes nothing. What it returns is the queue's own array, not a copy (the
  source types it read-only): a push through the returned reference is an \<open>enqueue\<close>; it
  raises the size by one, and the pushed message ends the next drained batch.
\<close>

theorem peek_aliases_internal_array:
  "peek this w = queue w this \<and>
   length (arrays w (peek this w)) = size_q this w \<and>
   arrayPush (peek this w) msg w = enqueue this msg w \<and>
   size_q this (arrayPush (peek this w) msg w) = size_q this w + 1 \<and>
   (let (batch, w') = drain this (arrayPush (peek this w) msg w)
    in arrays w' batch = arrays w (queue w this) @ [msg])"
  by (simp add: peek_def enqueue_def size_q_def arrayPush_def drain_def newArray_def Let_def)

text \<open>
  The claim as stated says that mutating the value \<open>peek\<close> returned cannot change the
  queue's later size: on a fresh queue (size 0) one push through it makes the size 1.
\<close>

theorem peek_alias_counterexample:
  "size_q exampleQueue exampleQueueWorld = 0 \<and>
   size_q exampleQueue
     (arrayPush (peek exampleQueue exampleQueueWorld) exampleMessage exampleQueueWorld) = 1"
  by (simp add: exampleQueue_def exampleQueueWorld_def exampleWorld_def newMessageBatchQueue_def
      newArray_def Let_def size_q_def arrayPush_def peek_def)

section \<open>The filter engine\<close>

lemma emit_fields:
  "trace (emit e w) = trace w @ [e]" "arrays (emit e w) = arrays w" "queue (emit e w) = queue w"
  "nextRef (emit e w) = nextRef w" "ticks (emit e w) = ticks w" "clock (emit e w) = clock w"
  "toISOString (emit e w) = toISOString w" "parseDate (emit e w) = parseDate w"
  "randomSuffix (emit e w) = randomSuffix w"
  by (simp_all add: emit_def)

lemma classifySender_found:
  "effectiveSenderId m \<noteq> [] \<Longrightarrow> normalizeRowKey (effectiveSenderId m) = Inr key \<Longrightarrow>
   getEntityResult (urgencyClient st) PK_CONTACTS key = Inr c \<Longrightarrow>
   classifySender m st w =
     (Inr \<lparr>ClassificationResult.classification = (if isPriority c then PriorityHuman else KnownHuman),
           contactEntry = Some c\<rparr>,
      emit (GetEntity (tableName (urgencyClient st)) PK_CONTACTS key) w)"
  by (simp add: classifySender_def getContact_found [of _ key])

lemma classifySender_unknown:
  "effectiveSenderId m \<noteq> [] \<Longrightarrow> normalizeRowKey (effectiveSenderId m) = Inr key \<Longrightarrow>
   getEntityResult (urgencyClient st) PK_CONTACTS key = Inl err \<Longrightarrow> isNotFoundError err \<Longrightarrow>
   classifySender m st w =
     (Inr \<lparr>ClassificationResult.classification = SystemNoise, contactEntry = None\<rparr>,
      emit (GetEntity (tableName (urgencyClient st)) PK_CONTACTS key) w)"
  by (simp add: classifySender_def getContact_not_found [of _ key])

lemma touch_world:
  "normalizeRowKey sid = Inr key \<Longrightarrow>
   fireAndForget (touchContactLastMessage st sid w) =
     emit (UpdateEntity (tableName (urgencyClient st))
             (TouchRow PK_CONTACTS key (toISOString w (clock w (ticks w)))) Merge)
       (w\<lparr>ticks := Suc (ticks w)\<rparr>)"
  by (simp add: fireAndForget_def touchContactLastMessage_def updateEntity_def dateNow_def
      split: option.splits)

lemma touch_heap:
  "arrays (fireAndForget (touchContactLastMessage st sid w)) = arrays w \<and>
   queue (fireAndForget (touchContactLastMessage st sid w)) = queue w"
  by (simp add: fireAndForget_def touchContactLastMessage_def updateEntity_def dateNow_def
      emit_def split: option.splits sum.splits)

text \<open>
  Claim C2. For a sender whose row the registry has (non-empty effective id, the lookup
  returns the row): with the priority flag the outcome is \<open>deliver-raw\<close> /
  \<open>priority-human\<close> and no array and no queue field changes, so nothing is enqueued and
  the size is unchanged; without the flag the outcome is \<open>batch\<close> / \<open>known-human\<close>, the
  queue's array gains exactly one message at its end (size plus one, every other array
  untouched), and that message's body is the inbound body as it came (\<open>Body ?? ""\<close>).
\<close>

theorem applySovereignFilter_registered:
  "effectiveSenderId m \<noteq> [] \<and> normalizeRowKey (effectiveSenderId m) = Inr key \<and>
   getEntityResult (urgencyClient st) PK_CONTACTS key = Inr c \<longrightarrow>
   (isPriority c \<longrightarrow>
      fst (applySovereignFilter m st q w) = Inr \<lparr>action = DeliverRaw, classification = PriorityHuman\<rparr> \<and>
      arrays (snd (applySovereignFilter m st q w)) = arrays w \<and>
      queue (snd (applySovereignFilter m st q w)) = queue w \<and>
      size_q q (snd (applySovereignFilter m st q w)) = size_q q w) \<and>
   (\<not> isPriority c \<longrightarrow>
      fst (applySovereignFilter m st q w) = Inr \<lparr>action = Batch, classification = KnownHuman\<rparr> \<and>
      size_q q (snd (applySovereignFilter m st q w)) = size_q q w + 1 \<and>
      queue (snd (applySovereignFilter m st q w)) = queue w \<and>
      (\<exists>stamp. arrays (snd (applySovereignFilter m st q w)) =
         (arrays w)(queue w q := arrays w (queue w q) @ [batchedMessageOf m stamp])) \<and>
      BatchedMessage.body (last (arrays (snd (applySovereignFilter m st q w)) (queue w q))) =
        nullish (Body m) [])"
proof (intro impI conjI; elim conjE)
  assume h: "effectiveSenderId m \<noteq> []" "normalizeRowKey (effectiveSenderId m) = Inr key"
    "getEntityResult (urgencyClient st) PK_CONTACTS key = Inr c"
  note cs = classifySender_found [OF h]
  {
    assume p: "isPriority c"
    from p show "fst (applySovereignFilter m st q w) = Inr \<lparr>action = DeliverRaw, classification = PriorityHuman\<rparr>"
      by (simp add: applySovereignFilter_def cs Let_def)
    from p show a: "arrays (snd (applySovereignFilter m st q w)) = arrays w"
      by (simp add: applySovereignFilter_def cs Let_def touch_heap emit_fields)
    from p show b: "queue (snd (applySovereignFilter m st q w)) = queue w"
      by (simp add: applySovereignFilter_def cs Let_def touch_heap emit_fields)
    from a b show "size_q q (snd (applySovereignFilter m st q w)) = size_q q w"
      by (simp add: size_q_def)
  }
  {
    assume p: "\<not> isPriority c"
    define w2 where "w2 = fireAndForget (touchContactLastMessage st (effectiveSenderId m)
      (emit (GetEntity (tableName (urgencyClient st)) PK_CONTACTS key) w))"
    define stamp where "stamp = toISOString w (clock w2 (ticks w2))"
    have heap2: "arrays w2 = arrays w" "queue w2 = queue w"
      by (simp_all add: w2_def touch_heap emit_fields)
    have res: "applySovereignFilter m st q w =
      (Inr \<lparr>action = Batch, classification = KnownHuman\<rparr>,
       enqueue q (batchedMessageOf m stamp) (w2\<lparr>ticks := Suc (ticks w2)\<rparr>))"
      using p by (simp add: applySovereignFilter_def cs Let_def w2_def stamp_def dateNow_def)
    show "fst (applySovereignFilter m st q w) = Inr \<lparr>action = Batch, classification = KnownHuman\<rparr>"
      by (simp add: res)
    have arr: "arrays (snd (applySovereignFilter m st q w)) =
         (arrays w)(queue w q := arrays w (queue w q) @ [batchedMessageOf m stamp])"
      by (simp add: res enqueue_def arrayPush_def heap2)
    then show "\<exists>stamp. arrays (snd (applySovereignFilter m st q w)) =
         (arrays w)(queue w q := arrays w (queue w q) @ [batchedMessageOf m stamp])" ..
    show qq: "queue (snd (applySovereignFilter m st q w)) = queue w"
      by (simp add: res enqueue_def arrayPush_def heap2)
    show "size_q q (snd (applySovereignFilter m st q w)) = size_q q w + 1"
      by (simp add: size_q_def arr qq)
    show "BatchedMessage.body (last (arrays (snd (applySovereignFilter m st q w)) (queue w q))) =
        nullish (Body m) []"
      by (simp add: arr batchedMessageOf_def)
  }
qed

theorem applySovereignFilter_registered_witness:
  "fst (applySovereignFilter (exampleCtx (Some (js_of ''alice'')) None) exampleStorage
          exampleQueue exampleQueueWorld) =
     Inr \<lparr>action = DeliverRaw, classification = PriorityHuman\<rparr> \<and>
   size_q exampleQueue (snd (applySovereignFilter (exampleCtx (Some (js_of ''alice'')) None)
          exampleStorage exampleQueue exampleQueueWorld)) = 0 \<and>
   fst (applySovereignFilter (exampleCtx (Some (js_of ''bob'')) None) exampleStorage
          exampleQueue exampleQueueWorld) =
     Inr \<lparr>action = Batch, classification = KnownHuman\<rparr> \<and>
   size_q exampleQueue (snd (applySovereignFilter (exampleCtx (Some (js_of ''bob'')) None)
          exampleStorage exampleQueue exampleQueueWorld)) = 1 \<and>
   BatchedMessage.body (last (arrays (snd (applySovereignFilter
          (exampleCtx (Some (js_of ''bob'')) None) exampleStorage exampleQueue exampleQueueWorld))
      (queue exampleQueueWorld exampleQueue))) = js_of ''hello''"
proof -
  have q0: "size_q exampleQueue exampleQueueWorld = 0"
    by (simp add: exampleQueue_def exampleQueueWorld_def exampleWorld_def
        newMessageBatchQueue_def newArray_def Let_def size_q_def)
  have ka: "normalizeRowKey (effectiveSenderId (exampleCtx (Some (js_of ''alice'')) None)) =
      Inr (js_of ''alice'')"
    by (simp add: example_defs)
  have kb: "normalizeRowKey (effectiveSenderId (exampleCtx (Some (js_of ''bob'')) None)) =
      Inr (js_of ''bob'')"
    by (simp add: example_defs)
  have ra: "getEntityResult (urgencyClient exampleStorage) PK_CONTACTS (js_of ''alice'') =
      Inr (exampleContact (js_of ''alice'') (js_of ''Alice'') True)"
    by (simp add: example_defs)
  have rb: "getEntityResult (urgencyClient exampleStorage) PK_CONTACTS (js_of ''bob'') =
      Inr (exampleContact (js_of ''bob'') (js_of ''Bob'') False)"
    by (simp add: example_defs)
  have na: "effectiveSenderId (exampleCtx (Some (js_of ''alice'')) None) \<noteq> []"
    "effectiveSenderId (exampleCtx (Some (js_of ''bob'')) None) \<noteq> []"
    by (simp_all add: example_defs)
  have pa: "isPriority (exampleContact (js_of ''alice'') (js_of ''Alice'') True)"
    "\<not> isPriority (exampleContact (js_of ''bob'') (js_of ''Bob'') False)"
    by (simp_all add: exampleContact_def)
  have bd: "nullish (Body (exampleCtx (Some (js_of ''bob'')) None)) [] = js_of ''hello''"
    by (simp add: exampleCtx_def nullish_def)
  show ?thesis
    using
      applySovereignFilter_registered [where m = "exampleCtx (Some (js_of ''alice'')) None"
        and key = "js_of ''alice''" and st = exampleStorage and q = exampleQueue
        and w = exampleQueueWorld and c = "exampleContact (js_of ''alice'') (js_of ''Alice'') True"]
      applySovereignFilter_registered [where m = "exampleCtx (Some (js_of ''bob'')) None"
        and key = "js_of ''bob''" and st = exampleStorage and q = exampleQueue
        and w = exampleQueueWorld and c = "exampleContact (js_of ''bob'') (js_of ''Bob'') False"]
    by (simp add: q0 ka kb ra rb na pa bd)
qed

lemma noiseEntity_world:
  "trace (snd (noiseEntity m w)) = trace w \<and> arrays (snd (noiseEntity m w)) = arrays w \<and>
   queue (snd (noiseEntity m w)) = queue w"
  by (cases "MessageSid m")
     (simp_all add: noiseEntity_def dateNow_def mathRandomSuffix_def Let_def)

lemma noiseEntity_body: "ArchivedNoiseEntity.body (fst (noiseEntity m w)) = nullish (Body m) []"
  by (cases "MessageSid m")
     (simp_all add: noiseEntity_def dateNow_def mathRandomSuffix_def Let_def)

lemma archiveSystemNoise_result:
  "archiveSystemNoise m st w =
     ((case upsertEntityResult (archiveClient st) (NoiseRow (fst (noiseEntity m w))) Replace of
         None \<Rightarrow> Inr () | Some err \<Rightarrow> Inl err),
      emit (UpsertEntity (tableName (archiveClient st)) (NoiseRow (fst (noiseEntity m w))) Replace)
        (snd (noiseEntity m w)))"
  by (simp add: archiveSystemNoise_def archiveNoise_def upsertEntity_def split: prod.splits)

lemma archives_sender_not_found:
  "effectiveSenderId m = [] \<or>
   (normalizeRowKey (effectiveSenderId m) = Inr key \<and>
    getEntityResult (urgencyClient st) PK_CONTACTS key = Inl err \<and> isNotFoundError err) \<longrightarrow>
   (let entity = fst (noiseEntity m (snd (classifySender m st w)));
        request = UpsertEntity (tableName (archiveClient st)) (NoiseRow entity) Replace;
        w' = snd (applySovereignFilter m st q w)
    in fst (applySovereignFilter m st q w) =
         (case upsertEntityResult (archiveClient st) (NoiseRow entity) Replace of
            None \<Rightarrow> Inr \<lparr>action = Archive, classification = SystemNoise\<rparr>
          | Some e \<Rightarrow> Inl e) \<and>
       filter isArchiveWrite (trace w') = filter isArchiveWrite (trace w) @ [request] \<and>
       last (trace w') = request \<and>
       archiveWrites (trace w') = archiveWrites (trace w) + 1 \<and>
       ArchivedNoiseEntity.body entity = nullish (Body m) [] \<and>
       arrays w' = arrays w \<and> queue w' = queue w \<and> size_q q w' = size_q q w)"
proof
  assume h: "effectiveSenderId m = [] \<or>
   (normalizeRowKey (effectiveSenderId m) = Inr key \<and>
    getEntityResult (urgencyClient st) PK_CONTACTS key = Inl err \<and> isNotFoundError err)"
  have "\<exists>w1. classifySender m st w =
          (Inr \<lparr>ClassificationResult.classification = SystemNoise, contactEntry = None\<rparr>, w1) \<and>
        filter isArchiveWrite (trace w1) = filter isArchiveWrite (trace w) \<and>
        arrays w1 = arrays w \<and> queue w1 = queue w"
  proof (cases "effectiveSenderId m = []")
    case True
    then show ?thesis by (simp add: classifySender_def)
  next
    case False
    with h classifySender_unknown [of m key st err w] show ?thesis
      by (simp add: emit_fields)
  qed
  then obtain w1 where cs: "classifySender m st w =
          (Inr \<lparr>ClassificationResult.classification = SystemNoise, contactEntry = None\<rparr>, w1)"
    and w1: "filter isArchiveWrite (trace w1) = filter isArchiveWrite (trace w)"
      "arrays w1 = arrays w" "queue w1 = queue w"
    by blast
  define entity where "entity = fst (noiseEntity m w1)"
  define request where "request = UpsertEntity (tableName (archiveClient st)) (NoiseRow entity) Replace"
  note ar = archiveSystemNoise_result [of m st w1, folded entity_def, folded request_def]
  note w2 = noiseEntity_world [of m w1]
  have res: "fst (applySovereignFilter m st q w) =
        (case upsertEntityResult (archiveClient st) (NoiseRow entity) Replace of
           None \<Rightarrow> Inr \<lparr>action = Archive, classification = SystemNoise\<rparr>
         | Some e \<Rightarrow> Inl e)"
    by (simp add: applySovereignFilter_def cs ar split: option.splits)
  have wd: "snd (applySovereignFilter m st q w) = emit request (snd (noiseEntity m w1))"
    by (simp add: applySovereignFilter_def cs ar split: option.splits)
  have aw: "isArchiveWrite request" by (simp add: request_def)
  have tr: "filter isArchiveWrite (trace (snd (applySovereignFilter m st q w))) =
        filter isArchiveWrite (trace w) @ [request]"
    by (simp add: wd emit_fields w2 w1 aw)
  have heap: "arrays (snd (applySovereignFilter m st q w)) = arrays w"
    "queue (snd (applySovereignFilter m st q w)) = queue w"
    by (simp_all add: wd emit_fields w2 w1)
  have lst: "last (trace (snd (applySovereignFilter m st q w))) = request"
    by (simp add: wd emit_fields)
  have cnt: "archiveWrites (trace (snd (applySovereignFilter m st q w))) =
      archiveWrites (trace w) + 1"
    using tr by (simp add: archiveWrites_def)
  have sz: "size_q q (snd (applySovereignFilter m st q w)) = size_q q w"
    using heap by (simp add: size_q_def)
  have bd: "ArchivedNoiseEntity.body entity = nullish (Body m) []"
    by (simp add: entity_def noiseEntity_body)
  have e1: "fst (noiseEntity m (snd (classifySender m st w))) = entity"
    by (simp add: cs entity_def)
  show "(let entity = fst (noiseEntity m (snd (classifySender m st w)));
        request = UpsertEntity (tableName (archiveClient st)) (NoiseRow entity) Replace;
        w' = snd (applySovereignFilter m st q w)
    in fst (applySovereignFilter m st q w) =
         (case upsertEntityResult (archiveClient st) (NoiseRow entity) Replace of
            None \<Rightarrow> Inr \<lparr>action = Archive, classification = SystemNoise\<rparr>
          | Some e \<Rightarrow> Inl e) \<and>
       filter isArchiveWrite (trace w') = filter isArchiveWrite (trace w) @ [request] \<and>
       last (trace w') = request \<and>
       archiveWrites (trace w') = archiveWrites (trace w) + 1 \<and>
       ArchivedNoiseEntity.body entity = nullish (Body m) [] \<and>
       arrays w' = arrays w \<and> queue w' = queue w \<and> size_q q w' = size_q q w)"
    unfolding Let_def e1 request_def [symmetric]
    using res tr lst cnt bd heap sz by blast
qed

lemma applySovereignFilter_illFormed:
  "\<not> isWellFormed (effectiveSenderId m) \<Longrightarrow> applySovereignFilter m st q w = (Inl URIError, w)"
  by (simp add: applySovereignFilter_def classifySender_illFormed)

text \<open>
  Claim C3, as amended. For an unknown sender whose effective id is empty, or is
  well-formed UTF-16 with the lookup at its row key answered not found,
  \<open>applySovereignFilter\<close> requests the archive write of the noise entry once: the archive
  writes of the trace grow by exactly that request, which is the last event before the
  return. The result is decided by the answer to that write: \<open>archive\<close> /
  \<open>system-noise\<close> when it succeeded, the write's error when it was rejected. No array
  and no queue field changes, so the queue size is unchanged. For a sender whose id has
  an unpaired surrogate (it has no row key, so no record either) nothing is archived:
  \<open>applySovereignFilter\<close> rejects with \<open>URIError\<close> and leaves the world untouched, with
  no lookup, no archive write and no outcome.
\<close>

theorem applySovereignFilter_archives_unknown_sender:
  "(effectiveSenderId m = [] \<or>
    (isWellFormed (effectiveSenderId m) \<and>
     (\<exists>key err. normalizeRowKey (effectiveSenderId m) = Inr key \<and>
        getEntityResult (urgencyClient st) PK_CONTACTS key = Inl err \<and> isNotFoundError err)) \<longrightarrow>
    (let entity = fst (noiseEntity m (snd (classifySender m st w)));
        request = UpsertEntity (tableName (archiveClient st)) (NoiseRow entity) Replace;
        w' = snd (applySovereignFilter m st q w)
    in fst (applySovereignFilter m st q w) =
         (case upsertEntityResult (archiveClient st) (NoiseRow entity) Replace of
            None \<Rightarrow> Inr \<lparr>action = Archive, classification = SystemNoise\<rparr>
          | Some e \<Rightarrow> Inl e) \<and>
       filter isArchiveWrite (trace w') = filter isArchiveWrite (trace w) @ [request] \<and>
       last (trace w') = request \<and>
       archiveWrites (trace w') = archiveWrites (trace w) + 1 \<and>
       ArchivedNoiseEntity.body entity = nullish (Body m) [] \<and>
       arrays w' = arrays w \<and> queue w' = queue w \<and> size_q q w' = size_q q w)) \<and>
   (isWellFormed (effectiveSenderId m) \<longrightarrow>
      (\<exists>key. normalizeRowKey (effectiveSenderId m) = Inr key)) \<and>
   (\<not> isWellFormed (effectiveSenderId m) \<longrightarrow>
      applySovereignFilter m st q w = (Inl URIError, w))"
proof (intro conjI impI)
  assume "effectiveSenderId m = [] \<or>
    (isWellFormed (effectiveSenderId m) \<and>
     (\<exists>key err. normalizeRowKey (effectiveSenderId m) = Inr key \<and>
        getEntityResult (urgencyClient st) PK_CONTACTS key = Inl err \<and> isNotFoundError err))"
  then obtain key err where "effectiveSenderId m = [] \<or>
   (normalizeRowKey (effectiveSenderId m) = Inr key \<and>
    getEntityResult (urgencyClient st) PK_CONTACTS key = Inl err \<and> isNotFoundError err)"
    by blast
  then show "(let entity = fst (noiseEntity m (snd (classifySender m st w)));
        request = UpsertEntity (tableName (archiveClient st)) (NoiseRow entity) Replace;
        w' = snd (applySovereignFilter m st q w)
    in fst (applySovereignFilter m st q w) =
         (case upsertEntityResult (archiveClient st) (NoiseRow entity) Replace of
            None \<Rightarrow> Inr \<lparr>action = Archive, classification = SystemNoise\<rparr>
          | Some e \<Rightarrow> Inl e) \<and>
       filter isArchiveWrite (trace w') = filter isArchiveWrite (trace w) @ [request] \<and>
       last (trace w') = request \<and>
       archiveWrites (trace w') = archiveWrites (trace w) + 1 \<and>
       ArchivedNoiseEntity.body entity = nullish (Body m) [] \<and>
       arrays w' = arrays w \<and> queue w' = queue w \<and> size_q q w' = size_q q w)"
    using archives_sender_not_found [where m = m and key = key and st = st and err = err
        and q = q and w = w]
    by blast
next
  assume "isWellFormed (effectiveSenderId m)"
  then show "\<exists>key. normalizeRowKey (effectiveSenderId m) = Inr key"
    by (rule wellFormed_key)
next
  assume "\<not> isWellFormed (effectiveSenderId m)"
  then show "applySovereignFilter m st q w = (Inl URIError, w)"
    by (rule applySovereignFilter_illFormed)
qed

theorem applySovereignFilter_archives_unknown_sender_witness:
  "isWellFormed (js_of ''carol'') \<and>
   fst (applySovereignFilter (exampleCtx (Some (js_of ''carol'')) None) exampleStorage
          exampleQueue exampleQueueWorld) =
     Inr \<lparr>action = Archive, classification = SystemNoise\<rparr> \<and>
   archiveWrites (trace (snd (applySovereignFilter (exampleCtx (Some (js_of ''carol'')) None)
          exampleStorage exampleQueue exampleQueueWorld))) = 1 \<and>
   size_q exampleQueue (snd (applySovereignFilter (exampleCtx (Some (js_of ''carol'')) None)
          exampleStorage exampleQueue exampleQueueWorld)) = 0 \<and>
   fst (applySovereignFilter (exampleCtx None None) exampleStorage
          exampleQueue exampleQueueWorld) =
     Inr \<lparr>action = Archive, classification = SystemNoise\<rparr> \<and>
   fst (applySovereignFilter (exampleCtx None None)
          (exampleStorage\<lparr>archiveClient :=
             (archiveClient exampleStorage)\<lparr>upsertEntityResult := (\<lambda>entity mode. Some (StatusError 503))\<rparr>\<rparr>)
          exampleQueue exampleQueueWorld) = Inl (StatusError 503) \<and>
   \<not> isWellFormed [0x61, 0xD800] \<and>
   applySovereignFilter (exampleCtx (Some [0x61, 0xD800]) None) exampleStorage
       exampleQueue exampleQueueWorld = (Inl URIError, exampleQueueWorld)"
proof -
  have q0: "size_q exampleQueue exampleQueueWorld = 0"
    by (simp add: exampleQueue_def exampleQueueWorld_def exampleWorld_def
        newMessageBatchQueue_def newArray_def Let_def size_q_def)
  have t0: "archiveWrites (trace exampleQueueWorld) = 0"
    by (simp add: exampleQueue_def exampleQueueWorld_def exampleWorld_def
        newMessageBatchQueue_def newArray_def Let_def archiveWrites_def)
  have wf: "isWellFormed (js_of ''carol'')"
    by (simp add: js_of_def isTrailingSurrogate_def isLeadingSurrogate_def)
  have ids: "effectiveSenderId (exampleCtx (Some (js_of ''carol'')) None) = js_of ''carol''"
    "effectiveSenderId (exampleCtx None None) = []"
    "effectiveSenderId (exampleCtx (Some [0x61, 0xD800]) None) = [0x61, 0xD800]"
    by (simp_all add: exampleCtx_def effectiveSenderId_def nullish_def)
  have kc: "normalizeRowKey (js_of ''carol'') = Inr (js_of ''carol'')"
    by (simp add: normalizeRowKey_def js_of_def uriUnreserved_def replacePercent_def)
  have rc: "getEntityResult (urgencyClient exampleStorage) PK_CONTACTS (js_of ''carol'') =
      Inl (StatusError 404)"
    by (simp add: example_defs)
  have up: "upsertEntityResult (archiveClient exampleStorage) = (\<lambda>entity mode. None)"
    by (simp add: exampleStorage_def tableOf_def)
  show ?thesis
    using
      applySovereignFilter_archives_unknown_sender
        [where m = "exampleCtx (Some (js_of ''carol'')) None"
        and st = exampleStorage and q = exampleQueue and w = exampleQueueWorld]
      applySovereignFilter_archives_unknown_sender [where m = "exampleCtx None None"
        and st = exampleStorage and q = exampleQueue and w = exampleQueueWorld]
      applySovereignFilter_archives_unknown_sender [where m = "exampleCtx None None"
        and st = "exampleStorage\<lparr>archiveClient :=
             (archiveClient exampleStorage)\<lparr>upsertEntityResult := (\<lambda>entity mode. Some (StatusError 503))\<rparr>\<rparr>"
        and q = exampleQueue and w = exampleQueueWorld]
      applySovereignFilter_archives_unknown_sender
        [where m = "exampleCtx (Some [0x61, 0xD800]) None"
        and st = exampleStorage and q = exampleQueue and w = exampleQueueWorld]
    by (simp add: q0 t0 wf ids kc rc up Let_def isTrailingSurrogate_def isLeadingSurrogate_def)
qed

text \<open>
  The claim as stated has every unknown sender archived exactly once. Over an empty
  registry the sender whose id is the single code unit \<open>U+D800\<close> is unknown, and
  \<open>applySovereignFilter\<close> rejects with \<open>URIError\<close> and leaves the world as it was: the
  trace holds no archive write.
\<close>

theorem applySovereignFilter_lone_surrogate_counterexample:
  "applySovereignFilter (exampleCtx (Some [0xD800]) None) exampleEmptyStorage
       exampleQueue exampleQueueWorld = (Inl URIError, exampleQueueWorld) \<and>
   archiveWrites (trace exampleQueueWorld) = 0"
  by (simp add: applySovereignFilter_def classifySender_def getContact_def exampleCtx_def
      effectiveSenderId_def nullish_def normalizeRowKey_def uriUnreserved_def js_of_def
      isTrailingSurrogate_def isLeadingSurrogate_def
      exampleQueueWorld_def exampleWorld_def newMessageBatchQueue_def newArray_def Let_def
      archiveWrites_def)

lemma touch_world_any:
  "fireAndForget (touchContactLastMessage st sid w) =
     (case normalizeRowKey sid of
        Inl e \<Rightarrow> w
      | Inr key \<Rightarrow>
          emit (UpdateEntity (tableName (urgencyClient st))
                  (TouchRow PK_CONTACTS key (toISOString w (clock w (ticks w)))) Merge)
            (w\<lparr>ticks := Suc (ticks w)\<rparr>))"
  by (simp add: fireAndForget_def touchContactLastMessage_def updateEntity_def dateNow_def
      split: option.splits sum.splits)

lemma getContact_ignores_update:
  "getContact (st\<lparr>urgencyClient := (urgencyClient st)\<lparr>updateEntityResult := f\<rparr>\<rparr>) sid w =
   getContact st sid w"
  by (cases "normalizeRowKey sid") (simp_all add: getContact_def getEntity_def)

lemma touch_ignores_update:
  "fireAndForget (touchContactLastMessage
      (st\<lparr>urgencyClient := (urgencyClient st)\<lparr>updateEntityResult := f\<rparr>\<rparr>) sid w) =
   fireAndForget (touchContactLastMessage st sid w)"
  by (cases "normalizeRowKey sid") (simp_all add: touch_world_any)

lemma classifySender_ignores_update:
  "classifySender m (st\<lparr>urgencyClient := (urgencyClient st)\<lparr>updateEntityResult := f\<rparr>\<rparr>) w =
   classifySender m st w"
  unfolding classifySender_def getContact_ignores_update ..

lemma archiveSystemNoise_ignores_update:
  "archiveSystemNoise m (st\<lparr>urgencyClient := (urgencyClient st)\<lparr>updateEntityResult := f\<rparr>\<rparr>) w =
   archiveSystemNoise m st w"
  by (simp add: archiveSystemNoise_def archiveNoise_def)

text \<open>
  Claim C6. The last-message touch is best effort. \<open>touchContactLastMessage\<close> fulfils
  when the update is rejected as not found. Whatever the update request answers
  (success, not found, any fault), \<open>applySovereignFilter\<close> returns the same result and
  leaves the same world: the answer \<open>f\<close> of the update is replaced at will and nothing
  changes. In particular, for a registered sender whose touch rejects, the outcome is
  still the one the priority flag decides.
\<close>

theorem touch_failure_never_reaches_outcome:
  "(normalizeRowKey sid = Inr key \<and>
    updateEntityResult (urgencyClient st)
      (TouchRow PK_CONTACTS key (toISOString w (clock w (ticks w)))) Merge = Some err \<and>
    isNotFoundError err \<longrightarrow>
      fst (touchContactLastMessage st sid w) = Inr ()) \<and>
   applySovereignFilter m (st\<lparr>urgencyClient := (urgencyClient st)\<lparr>updateEntityResult := f\<rparr>\<rparr>) q w =
     applySovereignFilter m st q w \<and>
   (effectiveSenderId m \<noteq> [] \<and> normalizeRowKey (effectiveSenderId m) = Inr k \<and>
    getEntityResult (urgencyClient st) PK_CONTACTS k = Inr c \<and>
    fst (touchContactLastMessage st (effectiveSenderId m) (snd (classifySender m st w))) = Inl e \<longrightarrow>
      fst (applySovereignFilter m st q w) =
        Inr (if isPriority c then \<lparr>action = DeliverRaw, classification = PriorityHuman\<rparr>
             else \<lparr>action = Batch, classification = KnownHuman\<rparr>))"
proof (intro conjI impI)
  assume "normalizeRowKey sid = Inr key \<and>
    updateEntityResult (urgencyClient st)
      (TouchRow PK_CONTACTS key (toISOString w (clock w (ticks w)))) Merge = Some err \<and>
    isNotFoundError err"
  then show "fst (touchContactLastMessage st sid w) = Inr ()"
    by (simp add: touchContactLastMessage_def updateEntity_def dateNow_def)
next
  show "applySovereignFilter m (st\<lparr>urgencyClient := (urgencyClient st)\<lparr>updateEntityResult := f\<rparr>\<rparr>) q w =
     applySovereignFilter m st q w"
    unfolding applySovereignFilter_def classifySender_ignores_update
      archiveSystemNoise_ignores_update touch_ignores_update ..
next
  assume "effectiveSenderId m \<noteq> [] \<and> normalizeRowKey (effectiveSenderId m) = Inr k \<and>
    getEntityResult (urgencyClient st) PK_CONTACTS k = Inr c \<and>
    fst (touchContactLastMessage st (effectiveSenderId m) (snd (classifySender m st w))) = Inl e"
  then have h: "effectiveSenderId m \<noteq> []" "normalizeRowKey (effectiveSenderId m) = Inr k"
    "getEntityResult (urgencyClient st) PK_CONTACTS k = Inr c"
    by simp_all
  show "fst (applySovereignFilter m st q w) =
        Inr (if isPriority c then \<lparr>action = DeliverRaw, classification = PriorityHuman\<rparr>
             else \<lparr>action = Batch, classification = KnownHuman\<rparr>)"
    by (simp add: applySovereignFilter_def classifySender_found [OF h] Let_def split: prod.splits)
qed

theorem touch_failure_never_reaches_outcome_witness:
  "fst (touchContactLastMessage exampleStorage (js_of ''carol'') exampleWorld) = Inr () \<and>
   fst (touchContactLastMessage
          (exampleStorage\<lparr>urgencyClient :=
             (urgencyClient exampleStorage)\<lparr>updateEntityResult := (\<lambda>entity mode. Some (StatusError 500))\<rparr>\<rparr>)
          (js_of ''bob'')
          (snd (classifySender (exampleCtx (Some (js_of ''bob'')) None)
             (exampleStorage\<lparr>urgencyClient :=
               (urgencyClient exampleStorage)\<lparr>updateEntityResult := (\<lambda>entity mode. Some (StatusError 500))\<rparr>\<rparr>)
             exampleQueueWorld))) = Inl (StatusError 500) \<and>
   fst (applySovereignFilter (exampleCtx (Some (js_of ''bob'')) None)
          (exampleStorage\<lparr>urgencyClient :=
             (urgencyClient exampleStorage)\<lparr>updateEntityResult := (\<lambda>entity mode. Some (StatusError 500))\<rparr>\<rparr>)
          exampleQueue exampleQueueWorld) =
     Inr \<lparr>action = Batch, classification = KnownHuman\<rparr>"
proof -
  let ?st = "exampleStorage\<lparr>urgencyClient :=
             (urgencyClient exampleStorage)\<lparr>updateEntityResult := (\<lambda>entity mode. Some (StatusError 500))\<rparr>\<rparr>"
  let ?m = "exampleCtx (Some (js_of ''bob'')) None"
  have kc: "normalizeRowKey (js_of ''carol'') = Inr (js_of ''carol'')"
    by (simp add: example_defs)
  have uc: "updateEntityResult (urgencyClient exampleStorage)
      (TouchRow PK_CONTACTS (js_of ''carol'')
         (toISOString exampleWorld (clock exampleWorld (ticks exampleWorld)))) Merge =
      Some (StatusError 404)"
    by (simp add: example_defs)
  have id: "effectiveSenderId ?m = js_of ''bob''"
    by (simp add: exampleCtx_def effectiveSenderId_def nullish_def)
  have kb: "normalizeRowKey (js_of ''bob'') = Inr (js_of ''bob'')"
    by (simp add: example_defs)
  have rb: "getEntityResult (urgencyClient ?st) PK_CONTACTS (js_of ''bob'') =
      Inr (exampleContact (js_of ''bob'') (js_of ''Bob'') False)"
    by (simp add: example_defs)
  have rb': "getEntityResult (urgencyClient exampleStorage) PK_CONTACTS (js_of ''bob'') =
      Inr (exampleContact (js_of ''bob'') (js_of ''Bob'') False)"
    by (simp add: example_defs)
  have nb: "js_of ''bob'' \<noteq> []" by (simp add: js_of_def)
  have tf: "fst (touchContactLastMessage ?st (js_of ''bob'') (snd (classifySender ?m ?st exampleQueueWorld))) =
      Inl (StatusError 500)"
    by (simp add: touchContactLastMessage_def kb updateEntity_def dateNow_def split: prod.splits)
  have pb: "\<not> isPriority (exampleContact (js_of ''bob'') (js_of ''Bob'') False)"
    by (simp add: exampleContact_def)
  show ?thesis
    using
      touch_failure_never_reaches_outcome [where sid = "js_of ''carol''" and key = "js_of ''carol''"
        and st = exampleStorage and w = exampleWorld and err = "StatusError 404"]
      touch_failure_never_reaches_outcome [where m = ?m and st = ?st and k = "js_of ''bob''"
        and c = "exampleContact (js_of ''bob'') (js_of ''Bob'') False" and w = exampleQueueWorld
        and q = exampleQueue and e = "StatusError 500"]
    by (simp add: kc uc id kb rb rb' nb tf pb)
qed

section \<open>Dispatch with the filter disabled\<close>

text \<open>
  Claim C9. With the filter disabled (the configuration passed, or the default when none
  is passed, has \<open>enabled\<close> false) \<open>dispatchWithSovereignFilter\<close> hands the message to
  normal dispatch and returns its result with \<open>intercepted\<close> false (its rejection, when
  normal dispatch rejects). The world afterwards is the world before plus that one
  dispatch event: no table request is added to the trace, no array and no queue field
  changes, nothing is allocated, whoever the sender is.
\<close>

theorem disabled_filter_is_total_bypass:
  "\<not> enabled (nullish (filterConfig p) DEFAULT_SOVEREIGN_FILTER_CONFIG) \<longrightarrow>
   fst (dispatchWithSovereignFilter env p w) =
     (case dispatchInboundResult env (ctx p) (dispatchArgs p) of
        Inl err \<Rightarrow> Inl err
      | Inr result \<Rightarrow>
          Inr \<lparr>dispatchResult = Some result, intercepted = False,
               outcome = \<lparr>action = DeliverRaw, classification = PriorityHuman\<rparr>\<rparr>) \<and>
   snd (dispatchWithSovereignFilter env p w) = w\<lparr>trace := trace w @ [DispatchInbound (ctx p)]\<rparr> \<and>
   filter isTableRequest (trace (snd (dispatchWithSovereignFilter env p w))) =
     filter isTableRequest (trace w) \<and>
   arrays (snd (dispatchWithSovereignFilter env p w)) = arrays w \<and>
   queue (snd (dispatchWithSovereignFilter env p w)) = queue w \<and>
   nextRef (snd (dispatchWithSovereignFilter env p w)) = nextRef w"
  by (simp add: dispatchWithSovereignFilter_def dispatchInboundMessage_def emit_def
      split: sum.splits)

theorem disabled_filter_is_total_bypass_witness:
  "\<not> enabled (nullish (filterConfig (exampleParams (Some (js_of ''carol'')) None))
      DEFAULT_SOVEREIGN_FILTER_CONFIG) \<and>
   fst (dispatchWithSovereignFilter exampleEnv (exampleParams (Some (js_of ''carol'')) None)
          exampleQueueWorld) =
     Inr \<lparr>dispatchResult = Some (js_of ''ok''), intercepted = False,
          outcome = \<lparr>action = DeliverRaw, classification = PriorityHuman\<rparr>\<rparr> \<and>
   trace (snd (dispatchWithSovereignFilter exampleEnv (exampleParams (Some (js_of ''carol'')) None)
          exampleQueueWorld)) =
     [DispatchInbound (exampleCtx (Some (js_of ''carol'')) None)]"
  using disabled_filter_is_total_bypass [where p = "exampleParams (Some (js_of ''carol'')) None"
      and env = exampleEnv and w = exampleQueueWorld]
  by (simp add: exampleParams_def exampleEnv_def nullish_def DEFAULT_SOVEREIGN_FILTER_CONFIG_def
      exampleQueueWorld_def exampleWorld_def newMessageBatchQueue_def newArray_def Let_def)

text \<open>
  Claim C10. With the filter disabled, every result \<open>dispatchWithSovereignFilter\<close>
  returns carries the constant outcome \<open>deliver-raw\<close> / \<open>priority-human\<close>, whatever
  the registry holds for the sender: an unknown sender and a non-priority contact get it
  too.
\<close>

theorem disabled_outcome_is_constant:
  "\<not> enabled (nullish (filterConfig p) DEFAULT_SOVEREIGN_FILTER_CONFIG) \<and>
   fst (dispatchWithSovereignFilter env p w) = Inr r \<longrightarrow>
     outcome r = \<lparr>action = DeliverRaw, classification = PriorityHuman\<rparr>"
  by (auto simp: dispatchWithSovereignFilter_def dispatchInboundMessage_def
      split: sum.splits)

theorem disabled_outcome_is_constant_witness:
  "fst (classifySender (exampleCtx (Some (js_of ''carol'')) None) exampleStorage exampleQueueWorld) =
     Inr \<lparr>ClassificationResult.classification = SystemNoise, contactEntry = None\<rparr> \<and>
   fst (classifySender (exampleCtx (Some (js_of ''bob'')) None) exampleStorage exampleQueueWorld) =
     Inr \<lparr>ClassificationResult.classification = KnownHuman,
          contactEntry = Some (exampleContact (js_of ''bob'') (js_of ''Bob'') False)\<rparr> \<and>
   outcome (projr (fst (dispatchWithSovereignFilter exampleEnv
       (exampleParams (Some (js_of ''carol'')) None) exampleQueueWorld))) =
     \<lparr>action = DeliverRaw, classification = PriorityHuman\<rparr> \<and>
   outcome (projr (fst (dispatchWithSovereignFilter exampleEnv
       (exampleParams (Some (js_of ''bob'')) (Some (DEFAULT_SOVEREIGN_FILTER_CONFIG\<lparr>batchSchedule := []\<rparr>)))
       exampleQueueWorld))) =
     \<lparr>action = DeliverRaw, classification = PriorityHuman\<rparr>"
proof -
  let ?p1 = "exampleParams (Some (js_of ''carol'')) None"
  let ?p2 = "exampleParams (Some (js_of ''bob'')) (Some (DEFAULT_SOVEREIGN_FILTER_CONFIG\<lparr>batchSchedule := []\<rparr>))"
  let ?r = "\<lparr>dispatchResult = Some (js_of ''ok''), intercepted = False,
          outcome = \<lparr>action = DeliverRaw, classification = PriorityHuman\<rparr>\<rparr>"
  have d1: "fst (dispatchWithSovereignFilter exampleEnv ?p1 exampleQueueWorld) = Inr ?r"
    by (simp add: dispatchWithSovereignFilter_def dispatchInboundMessage_def exampleParams_def
        exampleEnv_def nullish_def DEFAULT_SOVEREIGN_FILTER_CONFIG_def)
  have d2: "fst (dispatchWithSovereignFilter exampleEnv ?p2 exampleQueueWorld) = Inr ?r"
    by (simp add: dispatchWithSovereignFilter_def dispatchInboundMessage_def exampleParams_def
        exampleEnv_def nullish_def DEFAULT_SOVEREIGN_FILTER_CONFIG_def)
  have c1: "fst (classifySender (exampleCtx (Some (js_of ''carol'')) None) exampleStorage exampleQueueWorld) =
     Inr \<lparr>ClassificationResult.classification = SystemNoise, contactEntry = None\<rparr>"
    by (simp add: classifySender_def getContact_def getEntity_def example_defs Let_def)
  have c2: "fst (classifySender (exampleCtx (Some (js_of ''bob'')) None) exampleStorage exampleQueueWorld) =
     Inr \<lparr>ClassificationResult.classification = KnownHuman,
          contactEntry = Some (exampleContact (js_of ''bob'') (js_of ''Bob'') False)\<rparr>"
    by (simp add: classifySender_def getContact_def getEntity_def example_defs Let_def)
  show ?thesis
    using disabled_outcome_is_constant [where p = ?p1 and env = exampleEnv
        and w = exampleQueueWorld and r = ?r]
      disabled_outcome_is_constant [where p = ?p2 and env = exampleEnv
        and w = exampleQueueWorld and r = ?r]
    by (simp add: d1 d2 c1 c2)
qed

section \<open>Relationship nudges\<close>

lemma mathRoundDiv_nearest:
  "0 < b \<Longrightarrow> 2 * \<bar>b * mathRoundDiv a b - a\<bar> \<le> b"
proof -
  assume b: "0 < b"
  define q where "q = (2 * a + b) div (2 * b)"
  define r where "r = (2 * a + b) mod (2 * b)"
  have e: "2 * a + b = 2 * b * q + r" by (simp add: q_def r_def)
  have r: "0 \<le> r" "r < 2 * b" using b by (simp_all add: r_def)
  have "2 * (b * q - a) = b - r" using e by (simp add: algebra_simps)
  with r show ?thesis unfolding mathRoundDiv_def q_def [symmetric] by (simp add: abs_if) 
qed

lemma findSilentContacts_result:
  assumes "fst (listContacts st w) = Inr contacts"
  shows "findSilentContacts st hours w =
     (Inr (filter (isSilent w (clock w (ticks w) - hours * 60 * 60 * 1000)) contacts),
      (snd (listContacts st w))\<lparr>ticks := Suc (ticks w)\<rparr>)"
proof -
  obtain w1 where l: "listContacts st w = (Inr contacts, w1)"
    using assms by (cases "listContacts st w") simp
  have t: "ticks w1 = ticks w" "clock w1 = clock w"
    using l by (auto simp: listContacts_def listEntities_def emit_def)
  show ?thesis
    by (simp add: findSilentContacts_def l dateNow_def t)
qed

lemma buildNudge_ids:
  "contactId (fst (buildNudge c h w)) = UrgencyTableEntry.rowKey c \<and>
   contactName (fst (buildNudge c h w)) = displayName c"
  by (simp add: buildNudge_def dateNow_def Let_def split: prod.splits)

lemma buildNudge_world:
  "snd (buildNudge c h w) = w\<lparr>ticks := ticks w + (if truthy (lastMessageAt c) then 1 else 0)\<rparr>"
  by (simp add: buildNudge_def dateNow_def Let_def split: prod.splits)

lemma buildNudge_hours:
  "silentHours (fst (buildNudge c h w)) =
     (if truthy (lastMessageAt c) then
        (case parseDate w (the (lastMessageAt c)) of
           None \<Rightarrow> NaN
         | Some t \<Rightarrow> Num (mathRoundDiv (clock w (ticks w) - t) (60 * 60 * 1000)))
      else Num h)"
  by (simp add: buildNudge_def dateNow_def Let_def split: prod.splits)

lemma buildNudge_notes:
  "truthy (notes' c) \<Longrightarrow>
   suggestion (fst (buildNudge c h w)) =
     js_of ''Consider acknowledging '' @ displayName c @ js_of '' for: '' @ the (notes' c)"
  by (simp add: buildNudge_def dateNow_def Let_def split: prod.splits)

lemma mapBuildNudge_ids:
  "map contactId (fst (mapBuildNudge cs h w)) = map UrgencyTableEntry.rowKey cs"
proof (induction cs arbitrary: w)
  case Nil
  show ?case by simp
next
  case (Cons d ds)
  obtain n w1 where b: "buildNudge d h w = (n, w1)" by (cases "buildNudge d h w")
  obtain ns w2 where m: "mapBuildNudge ds h w1 = (ns, w2)" by (cases "mapBuildNudge ds h w1")
  from buildNudge_ids [of d h w] b have "contactId n = UrgencyTableEntry.rowKey d" by simp
  moreover from Cons [of w1] m have "map contactId ns = map UrgencyTableEntry.rowKey ds" by simp
  ultimately show ?case by (simp add: b m)
qed

lemma mapBuildNudge_each:
  "c \<in> set cs \<Longrightarrow>
   \<exists>k\<ge>ticks w. fst (buildNudge c h (w\<lparr>ticks := k\<rparr>)) \<in> set (fst (mapBuildNudge cs h w))"
proof (induction cs arbitrary: w)
  case Nil
  then show ?case by simp
next
  case (Cons d ds)
  obtain n w1 where b: "buildNudge d h w = (n, w1)" by (cases "buildNudge d h w")
  obtain ns w2 where m: "mapBuildNudge ds h w1 = (ns, w2)" by (cases "mapBuildNudge ds h w1")
  from b buildNudge_world [of d h w]
  have w1: "w1 = w\<lparr>ticks := ticks w + (if truthy (lastMessageAt d) then 1 else 0)\<rparr>" by simp
  show ?case
  proof (cases "c = d")
    case True
    have "fst (buildNudge c h (w\<lparr>ticks := ticks w\<rparr>)) = n" using True b by simp
    then show ?thesis using b m by (intro exI [of _ "ticks w"]) simp
  next
    case False
    with Cons.prems have "c \<in> set ds" by simp
    from Cons.IH [OF this, of w1] m obtain k where k: "ticks w1 \<le> k"
      and i: "fst (buildNudge c h (w1\<lparr>ticks := k\<rparr>)) \<in> set ns" by auto
    have "w1\<lparr>ticks := k\<rparr> = w\<lparr>ticks := k\<rparr>" by (simp add: w1)
    moreover have "ticks w \<le> k" using k by (simp add: w1 split: if_splits)
    ultimately show ?thesis using i b m by (intro exI [of _ k]) simp
  qed
qed


lemma listContacts_world:
  "clock (snd (listContacts st w)) = clock w \<and> parseDate (snd (listContacts st w)) = parseDate w \<and>
   ticks (snd (listContacts st w)) = ticks w"
  by (simp add: listContacts_def listEntities_def emit_def)

lemma distinct_key_not_filtered:
  assumes "distinct (map f xs)" "c \<in> set xs" "\<not> P c"
  shows "f c \<notin> set (map f (filter P xs))"
proof
  assume "f c \<in> set (map f (filter P xs))"
  then obtain d where d: "d \<in> set xs" "P d" "f d = f c" by auto
  from assms(1) have "inj_on f (set xs)" by (simp add: distinct_map)
  with d assms(2) have "d = c" by (auto dest: inj_onD)
  with d assms(3) show False by simp
qed

text \<open>
  Claim C8. Let the registry enumerate \<open>contacts\<close>, let \<open>h\<close> be the configured threshold
  (the default configuration's when none is passed) and \<open>cutoff\<close> the first clock reading
  minus \<open>h\<close> hours. \<open>generateRelationshipNudges\<close> returns one nudge per silent contact,
  in registry order. For a contact \<open>c\<close> of the registry: without a last-message timestamp
  it has a nudge, whose \<open>silentHours\<close> is \<open>h\<close> itself; with a timestamp at or after the
  cutoff it is not silent, and (row keys being unique) no nudge carries its id; with a
  timestamp before the cutoff it has a nudge whose \<open>silentHours\<close> is the time between a
  later clock reading and the timestamp, divided by the milliseconds of an hour and
  rounded to the nearest integer (at most half an hour off); and when a silent contact
  has notes, its nudge's suggestion ends with the notes, verbatim.
\<close>

theorem generateRelationshipNudges_per_contact:
  "fst (listContacts st w) = Inr contacts \<and> c \<in> set contacts \<longrightarrow>
   (let h = nudgeAfterSilentHours (nullish config DEFAULT_SOVEREIGN_FILTER_CONFIG);
        cutoff = clock w (ticks w) - h * 60 * 60 * 1000
    in \<exists>nudges.
         fst (generateRelationshipNudges st config w) = Inr nudges \<and>
         map contactId nudges =
           map UrgencyTableEntry.rowKey (filter (isSilent w cutoff) contacts) \<and>
         (\<not> truthy (lastMessageAt c) \<longrightarrow>
            (\<exists>n\<in>set nudges. contactId n = UrgencyTableEntry.rowKey c \<and>
               contactName n = displayName c \<and> silentHours n = Num h)) \<and>
         (truthy (lastMessageAt c) \<and> parseDate w (the (lastMessageAt c)) = Some t \<and> cutoff \<le> t \<longrightarrow>
            \<not> isSilent w cutoff c \<and>
            (distinct (map UrgencyTableEntry.rowKey contacts) \<longrightarrow>
               UrgencyTableEntry.rowKey c \<notin> set (map contactId nudges))) \<and>
         (truthy (lastMessageAt c) \<and> parseDate w (the (lastMessageAt c)) = Some t \<and> t < cutoff \<longrightarrow>
            (\<exists>n\<in>set nudges. \<exists>k>ticks w.
               contactId n = UrgencyTableEntry.rowKey c \<and>
               silentHours n = Num (mathRoundDiv (clock w k - t) (60 * 60 * 1000)) \<and>
               2 * \<bar>60 * 60 * 1000 * mathRoundDiv (clock w k - t) (60 * 60 * 1000) - (clock w k - t)\<bar>
                 \<le> 60 * 60 * 1000)) \<and>
         (isSilent w cutoff c \<and> truthy (notes' c) \<longrightarrow>
            (\<exists>n\<in>set nudges. contactId n = UrgencyTableEntry.rowKey c \<and>
               suggestion n =
                 js_of ''Consider acknowledging '' @ displayName c @ js_of '' for: '' @
                 the (notes' c))))"
proof
  assume a: "fst (listContacts st w) = Inr contacts \<and> c \<in> set contacts"
  then have lc: "fst (listContacts st w) = Inr contacts" and c: "c \<in> set contacts" by simp_all
  define h where "h = nudgeAfterSilentHours (nullish config DEFAULT_SOVEREIGN_FILTER_CONFIG)"
  define cutoff where "cutoff = clock w (ticks w) - h * 60 * 60 * 1000"
  define silent where "silent = filter (isSilent w cutoff) contacts"
  define w1 where "w1 = (snd (listContacts st w))\<lparr>ticks := Suc (ticks w)\<rparr>"
  define nudges where "nudges = fst (mapBuildNudge silent h w1)"
  have fs: "findSilentContacts st h w = (Inr silent, w1)"
    using findSilentContacts_result [OF lc, of h] by (simp add: silent_def cutoff_def w1_def)
  have res: "fst (generateRelationshipNudges st config w) = Inr nudges"
    by (simp add: generateRelationshipNudges_def h_def [symmetric] fs nudges_def
        split: prod.splits)
  have ids: "map contactId nudges = map UrgencyTableEntry.rowKey silent"
    by (simp add: nudges_def mapBuildNudge_ids)
  have env: "clock w1 = clock w" "parseDate w1 = parseDate w" "ticks w1 = Suc (ticks w)"
    using listContacts_world [of st w] by (simp_all add: w1_def)
  have each: "\<exists>k>ticks w. fst (buildNudge c h (w1\<lparr>ticks := k\<rparr>)) \<in> set nudges"
    if "isSilent w cutoff c"
  proof -
    from that c have "c \<in> set silent" by (simp add: silent_def)
    from mapBuildNudge_each [OF this, of w1 h] obtain k where "ticks w1 \<le> k"
      "fst (buildNudge c h (w1\<lparr>ticks := k\<rparr>)) \<in> set nudges"
      by (auto simp: nudges_def)
    then show ?thesis using env(3) by (intro exI [of _ k]) simp
  qed
  have p1: "\<exists>n\<in>set nudges. contactId n = UrgencyTableEntry.rowKey c \<and>
               contactName n = displayName c \<and> silentHours n = Num h"
    if nt: "\<not> truthy (lastMessageAt c)"
  proof -
    from nt have "isSilent w cutoff c" by (simp add: isSilent_def)
    from each [OF this] obtain k where "fst (buildNudge c h (w1\<lparr>ticks := k\<rparr>)) \<in> set nudges"
      by blast
    then show ?thesis
      using buildNudge_ids [of c h "w1\<lparr>ticks := k\<rparr>"] buildNudge_hours [of c h "w1\<lparr>ticks := k\<rparr>"] nt
      by (intro bexI [of _ "fst (buildNudge c h (w1\<lparr>ticks := k\<rparr>))"]) simp_all
  qed
  have p2: "\<not> isSilent w cutoff c \<and>
            (distinct (map UrgencyTableEntry.rowKey contacts) \<longrightarrow>
               UrgencyTableEntry.rowKey c \<notin> set (map contactId nudges))"
    if "truthy (lastMessageAt c) \<and> parseDate w (the (lastMessageAt c)) = Some t \<and> cutoff \<le> t"
  proof -
    from that have ns: "\<not> isSilent w cutoff c" by (simp add: isSilent_def)
    moreover have "UrgencyTableEntry.rowKey c \<notin> set (map contactId nudges)"
      if "distinct (map UrgencyTableEntry.rowKey contacts)"
      using distinct_key_not_filtered [where f = UrgencyTableEntry.rowKey and xs = contacts
          and c = c and P = "isSilent w cutoff"] that c ns
      by (simp add: ids silent_def)
    ultimately show ?thesis by blast
  qed
  have p3: "\<exists>n\<in>set nudges. \<exists>k>ticks w.
               contactId n = UrgencyTableEntry.rowKey c \<and>
               silentHours n = Num (mathRoundDiv (clock w k - t) (60 * 60 * 1000)) \<and>
               2 * \<bar>60 * 60 * 1000 * mathRoundDiv (clock w k - t) (60 * 60 * 1000) - (clock w k - t)\<bar>
                 \<le> 60 * 60 * 1000"
    if tt: "truthy (lastMessageAt c) \<and> parseDate w (the (lastMessageAt c)) = Some t \<and> t < cutoff"
  proof -
    from tt have "isSilent w cutoff c" by (simp add: isSilent_def)
    from each [OF this] obtain k where k: "ticks w < k"
      "fst (buildNudge c h (w1\<lparr>ticks := k\<rparr>)) \<in> set nudges"
      by blast
    have hrs: "silentHours (fst (buildNudge c h (w1\<lparr>ticks := k\<rparr>))) =
        Num (mathRoundDiv (clock w k - t) (60 * 60 * 1000))"
      using tt by (simp add: buildNudge_hours env)
    have rnd: "2 * \<bar>60 * 60 * 1000 * mathRoundDiv (clock w k - t) (60 * 60 * 1000) - (clock w k - t)\<bar>
                 \<le> 60 * 60 * 1000"
      using mathRoundDiv_nearest [of "60 * 60 * 1000" "clock w k - t"] by simp
    show ?thesis
      using k hrs rnd buildNudge_ids [of c h "w1\<lparr>ticks := k\<rparr>"]
      by (intro bexI [of _ "fst (buildNudge c h (w1\<lparr>ticks := k\<rparr>))"] exI [of _ k]) simp_all
  qed
  have p4: "\<exists>n\<in>set nudges. contactId n = UrgencyTableEntry.rowKey c \<and>
               suggestion n =
                 js_of ''Consider acknowledging '' @ displayName c @ js_of '' for: '' @
                 the (notes' c)"
    if sn: "isSilent w cutoff c \<and> truthy (notes' c)"
  proof -
    from sn each obtain k where "fst (buildNudge c h (w1\<lparr>ticks := k\<rparr>)) \<in> set nudges"
      by blast
    then show ?thesis
      using buildNudge_ids [of c h "w1\<lparr>ticks := k\<rparr>"] buildNudge_notes [of c h "w1\<lparr>ticks := k\<rparr>"] sn
      by (intro bexI [of _ "fst (buildNudge c h (w1\<lparr>ticks := k\<rparr>))"]) simp_all
  qed
  show "(let h = nudgeAfterSilentHours (nullish config DEFAULT_SOVEREIGN_FILTER_CONFIG);
        cutoff = clock w (ticks w) - h * 60 * 60 * 1000
    in \<exists>nudges.
         fst (generateRelationshipNudges st config w) = Inr nudges \<and>
         map contactId nudges =
           map UrgencyTableEntry.rowKey (filter (isSilent w cutoff) contacts) \<and>
         (\<not> truthy (lastMessageAt c) \<longrightarrow>
            (\<exists>n\<in>set nudges. contactId n = UrgencyTableEntry.rowKey c \<and>
               contactName n = displayName c \<and> silentHours n = Num h)) \<and>
         (truthy (lastMessageAt c) \<and> parseDate w (the (lastMessageAt c)) = Some t \<and> cutoff \<le> t \<longrightarrow>
            \<not> isSilent w cutoff c \<and>
            (distinct (map UrgencyTableEntry.rowKey contacts) \<longrightarrow>
               UrgencyTableEntry.rowKey c \<notin> set (map contactId nudges))) \<and>
         (truthy (lastMessageAt c) \<and> parseDate w (the (lastMessageAt c)) = Some t \<and> t < cutoff \<longrightarrow>
            (\<exists>n\<in>set nudges. \<exists>k>ticks w.
               contactId n = UrgencyTableEntry.rowKey c \<and>
               silentHours n = Num (mathRoundDiv (clock w k - t) (60 * 60 * 1000)) \<and>
               2 * \<bar>60 * 60 * 1000 * mathRoundDiv (clock w k - t) (60 * 60 * 1000) - (clock w k - t)\<bar>
                 \<le> 60 * 60 * 1000)) \<and>
         (isSilent w cutoff c \<and> truthy (notes' c) \<longrightarrow>
            (\<exists>n\<in>set nudges. contactId n = UrgencyTableEntry.rowKey c \<and>
               suggestion n =
                 js_of ''Consider acknowledging '' @ displayName c @ js_of '' for: '' @
                 the (notes' c))))"
    unfolding Let_def h_def [symmetric] cutoff_def [symmetric]
    using res ids [unfolded silent_def] p1 p2 p3 p4
    by (intro exI [of _ nudges] conjI impI) blast+
qed


theorem generateRelationshipNudges_per_contact_witness:
  "fst (listContacts exampleNudgeStorage exampleWorld) = Inr [exampleDave, exampleEve, exampleFrank] \<and>
   (\<exists>nudges. fst (generateRelationshipNudges exampleNudgeStorage None exampleWorld) = Inr nudges \<and>
      (\<exists>n\<in>set nudges. contactId n = js_of ''frank'' \<and> silentHours n = Num 72)) \<and>
   (\<exists>nudges. fst (generateRelationshipNudges exampleNudgeStorage None exampleWorld) = Inr nudges \<and>
      js_of ''eve'' \<notin> set (map contactId nudges)) \<and>
   (\<exists>nudges. fst (generateRelationshipNudges exampleNudgeStorage None exampleWorld) = Inr nudges \<and>
      (\<exists>n\<in>set nudges. \<exists>k>0. contactId n = js_of ''dave'' \<and>
         silentHours n = Num (mathRoundDiv (clock exampleWorld k - 1699654400000) 3600000)) \<and>
      (\<exists>n\<in>set nudges. contactId n = js_of ''dave'' \<and>
         suggestion n = js_of ''Consider acknowledging Dave for: helped with the Azure migration''))"
proof -
  let ?cs = "[exampleDave, exampleEve, exampleFrank]"
  have lc: "fst (listContacts exampleNudgeStorage exampleWorld) = Inr ?cs"
    by (simp add: listContacts_def listEntities_def exampleNudgeStorage_def tableOf_def)
  have h: "nudgeAfterSilentHours (nullish None DEFAULT_SOVEREIGN_FILTER_CONFIG) = 72"
    by (simp add: nullish_def DEFAULT_SOVEREIGN_FILTER_CONFIG_def)
  have cl: "ticks exampleWorld = 0" "clock exampleWorld 0 = 1700000000000"
    by (simp_all add: exampleWorld_def)
  have keys: "UrgencyTableEntry.rowKey exampleDave = js_of ''dave''"
    "UrgencyTableEntry.rowKey exampleEve = js_of ''eve''"
    "UrgencyTableEntry.rowKey exampleFrank = js_of ''frank''"
    by (simp_all add: exampleDave_def exampleEve_def exampleFrank_def exampleContact_def)
  have dk: "distinct (map UrgencyTableEntry.rowKey ?cs)"
    by (simp add: keys js_of_def)
  have frank: "\<not> truthy (lastMessageAt exampleFrank)"
    by (simp add: exampleFrank_def exampleContact_def truthy_def)
  have eve: "truthy (lastMessageAt exampleEve)"
    "parseDate exampleWorld (the (lastMessageAt exampleEve)) = Some 1699996400000"
    by (simp_all add: exampleEve_def exampleContact_def truthy_def exampleWorld_def js_of_def)
  have dave: "truthy (lastMessageAt exampleDave)"
    "parseDate exampleWorld (the (lastMessageAt exampleDave)) = Some 1699654400000"
    "truthy (notes' exampleDave)" "displayName exampleDave = js_of ''Dave''"
    "the (notes' exampleDave) = js_of ''helped with the Azure migration''"
    by (simp_all add: exampleDave_def exampleContact_def truthy_def exampleWorld_def js_of_def)
  have sd: "isSilent exampleWorld (1700000000000 - 72 * 60 * 60 * 1000) exampleDave"
    by (simp add: isSilent_def dave)
  have joined: "js_of ''Consider acknowledging '' @ js_of ''Dave'' @ js_of '' for: '' @
      js_of ''helped with the Azure migration'' =
      js_of ''Consider acknowledging Dave for: helped with the Azure migration''"
    by (simp add: js_of_def)
  note t = generateRelationshipNudges_per_contact [where st = exampleNudgeStorage
      and w = exampleWorld and contacts = ?cs and config = None, unfolded Let_def h cl]
  from t [where c = exampleFrank] lc frank
  have 1: "\<exists>nudges. fst (generateRelationshipNudges exampleNudgeStorage None exampleWorld) = Inr nudges \<and>
      (\<exists>n\<in>set nudges. contactId n = js_of ''frank'' \<and> silentHours n = Num 72)"
    by (simp add: keys) blast
  from t [where c = exampleEve and t = 1699996400000] lc eve dk
  have 2: "\<exists>nudges. fst (generateRelationshipNudges exampleNudgeStorage None exampleWorld) = Inr nudges \<and>
      js_of ''eve'' \<notin> set (map contactId nudges)"
    by (simp add: keys) blast
  from t [where c = exampleDave and t = 1699654400000] lc dave sd
  have 3: "\<exists>nudges. fst (generateRelationshipNudges exampleNudgeStorage None exampleWorld) = Inr nudges \<and>
      (\<exists>n\<in>set nudges. \<exists>k>0. contactId n = js_of ''dave'' \<and>
         silentHours n = Num (mathRoundDiv (clock exampleWorld k - 1699654400000) 3600000)) \<and>
      (\<exists>n\<in>set nudges. contactId n = js_of ''dave'' \<and>
         suggestion n = js_of ''Consider acknowledging Dave for: helped with the Azure migration'')"
    by (simp add: keys joined) blast
  from lc 1 2 3 show ?thesis by blast
qed

end
